theory Spec2Isabelle
  imports Main
begin

section \<open>Azure credential and endpoint resolution (api/common/conf\_azure.go)\<close>

text \<open>
  A shallow embedding of \<^verbatim>\<open>conf_azure.go\<close>. Every call that leaves the file (the
  process environment, the Azure CLI profile and token cache, the autorest/adal SDK, the
  storage management client, \<^verbatim>\<open>net/url\<close>, the ini reader) is a field of the record
  \<open>world\<close>, fixed for one run. Each call that reads a file of the Azure CLI, asks the
  SDK for a credential or talks to the control plane is also written to a log of calls, so
  that "this collaborator was not consulted" is a statement about the log; the pure library
  functions (\<^verbatim>\<open>url.Parse\<close>, \<^verbatim>\<open>os.Getenv\<close>, \<^verbatim>\<open>homedir.Expand\<close>) are not logged. A Go result pair
  \<^verbatim>\<open>(T, error)\<close> is a sum \<open>error + T\<close>; a nil pointer dereference is the outcome
  \<open>Panics\<close>. Calls to the loggers do not influence any result and are left out.
\<close>

subsection \<open>Errors, outcomes and the log of calls\<close>

datatype error =
    External string
  | UnableToFindDefaultSubscription
  | MalformedAccountId string
  | AccountNotFound string
  | MissingAccount string
  | MissingKey string

datatype 'a go = Returns 'a | Panics

datatype call =
    Call_cli_ProfilePath
  | Call_cli_LoadProfile
  | Call_auth_GetSettingsFromEnvironment
  | Call_GetClientCredentials
  | Call_cred_Authorizer
  | Call_auth_GetSettingsFromFile
  | Call_ClientCredentialsAuthorizerWithResource
  | Call_cli_AccessTokensPath
  | Call_cli_LoadTokens
  | Call_adal_NewOAuthConfig
  | Call_ToADALToken
  | Call_adal_NewServicePrincipalTokenFromManualToken
  | Call_EnsureFresh
  | Call_adal_GetMSIVMEndpoint
  | Call_adal_NewServicePrincipalTokenFromMSI
  | Call_adal_NewServicePrincipalTokenFromMSIWithUserAssignedID
  | Call_NewAccountsClient
  | Call_client_List
  | Call_client_ListKeys
  | Call_ini_Load

type_synonym 'a io = "call list \<times> 'a"

definition io_return :: "'a \<Rightarrow> 'a io" where
  "io_return v = ([], v)"

definition io_call :: "call \<Rightarrow> 'a \<Rightarrow> 'a io" where
  "io_call c v = ([c], v)"

definition io_bind :: "'a io \<Rightarrow> ('a \<Rightarrow> 'b io) \<Rightarrow> 'b io" where
  "io_bind m f = (case m of (t, v) \<Rightarrow> (case f v of (t', v') \<Rightarrow> (t @ t', v')))"

subsection \<open>The strings package\<close>

text \<open>\<^verbatim>\<open>strings.Index(s, sep)\<close> for a one-byte separator: the first index, or -1.\<close>

fun Index :: "string \<Rightarrow> char \<Rightarrow> int" where
  "Index [] c = - 1"
| "Index (x # xs) c =
     (if x = c then 0 else (let i = Index xs c in if i = - 1 then - 1 else i + 1))"

text \<open>\<^verbatim>\<open>strings.Trim(s, cutset)\<close>: all leading and trailing bytes of the cutset removed.\<close>

definition Trim :: "string \<Rightarrow> string \<Rightarrow> string" where
  "Trim s cutset =
     rev (dropWhile (\<lambda>x. x \<in> set cutset) (rev (dropWhile (\<lambda>x. x \<in> set cutset) s)))"

text \<open>
  \<^verbatim>\<open>strings.SplitN(s, sep, n)\<close> for a one-byte separator and \<open>n \<ge> 0\<close>: at most \<open>n\<close>
  substrings, the last one being the unsplit remainder; \<open>genSplit k\<close> is the library's loop
  with \<open>k\<close> cuts left.
\<close>

fun genSplit :: "nat \<Rightarrow> char \<Rightarrow> string \<Rightarrow> string list" where
  "genSplit 0 c s = [s]"
| "genSplit (Suc k) c s =
     (case dropWhile (\<lambda>x. x \<noteq> c) s of
        [] \<Rightarrow> [s]
      | _ # rest \<Rightarrow> takeWhile (\<lambda>x. x \<noteq> c) s # genSplit k c rest)"

definition SplitN :: "string \<Rightarrow> char \<Rightarrow> nat \<Rightarrow> string list" where
  "SplitN s c n = (if n = 0 then [] else genSplit (n - 1) c s)"

text \<open>
  The slash-separated segments of a string, all of them (what \<^verbatim>\<open>strings.Split\<close>
  returns): the reading of "segment" against which the bounded split is compared.
\<close>

fun segments :: "char \<Rightarrow> string \<Rightarrow> string list" where
  "segments c [] = [[]]"
| "segments c (x # xs) =
     (if x = c then [] # segments c xs
      else (case segments c xs of [] \<Rightarrow> [[x]] | y # ys \<Rightarrow> (x # y) # ys))"

subsection \<open>Data of the SDKs\<close>

record Subscription =
  ID :: string
  TenantID :: string
  IsDefault :: bool

record Profile =
  Subscriptions :: "Subscription list"

datatype authorizer = BearerAuthorizer string

text \<open>
  \<^verbatim>\<open>storage.Account\<close>: every field is a pointer in the SDK; \<open>None\<close> is nil. The field
  \<open>PrimaryEndpoints_Blob\<close> stands for the chain \<^verbatim>\<open>acc.PrimaryEndpoints.Blob\<close>, nil when
  any pointer on the way is nil.
\<close>

record Account =
  Name :: "string option"
  AccountID :: "string option"
  PrimaryEndpoints_Blob :: "string option"

datatype KeyPermission = Read | Full

record AccountKey =
  KeyName :: "string option"
  Value :: "string option"
  Permissions :: KeyPermission

record AccountsClient =
  SubscriptionID :: string
  Authorizer_of :: "authorizer option"

record URL =
  Host :: string
  Hostname :: string
  Path :: string

record Token =
  Authority :: string
  Resource :: string
  ClientID :: string
  RawToken :: string

record EnvironmentSettings =
  Values :: "string \<Rightarrow> string"
  ResourceManagerEndpoint :: string
  ActiveDirectoryEndpoint :: string

record MSIConfig =
  MSI_Resource :: string
  MSI_ClientID :: string

datatype ClientCredentialsConfig = ClientCredentialsConfig string string string
datatype FileSettings = FileSettings string
datatype OAuthConfig = OAuthConfig string string
datatype adalToken = AdalToken string
datatype ServicePrincipalToken = ServicePrincipalToken string

type_synonym ini_file = "string \<Rightarrow> (string \<Rightarrow> string option) option"

subsection \<open>The collaborators\<close>

record world =
  os_Getenv :: "string \<Rightarrow> string"
  url_Parse :: "string \<Rightarrow> error + URL"
  url_String :: "URL \<Rightarrow> string"
  homedir_Expand :: "string \<Rightarrow> string"
  ini_Load :: "string \<Rightarrow> error + ini_file"
  cli_ProfilePath :: "error + string"
  cli_LoadProfile :: "string \<Rightarrow> error + Profile"
  auth_GetSettingsFromEnvironment :: "error + EnvironmentSettings"
  GetClientCredentials :: "EnvironmentSettings \<Rightarrow> error + ClientCredentialsConfig"
  cred_Authorizer :: "ClientCredentialsConfig \<Rightarrow> error + authorizer"
  auth_GetSettingsFromFile :: "error + FileSettings"
  ClientCredentialsAuthorizerWithResource :: "FileSettings \<Rightarrow> string \<Rightarrow> error + authorizer"
  cli_AccessTokensPath :: "error + string"
  cli_LoadTokens :: "string \<Rightarrow> error + Token list"
  adal_NewOAuthConfig :: "string \<Rightarrow> string \<Rightarrow> error + OAuthConfig"
  ToADALToken :: "Token \<Rightarrow> error + adalToken"
  adal_NewServicePrincipalTokenFromManualToken ::
    "OAuthConfig \<Rightarrow> string \<Rightarrow> string \<Rightarrow> adalToken \<Rightarrow> error + ServicePrincipalToken"
  EnsureFresh :: "ServicePrincipalToken \<Rightarrow> error option"
  NewBearerAuthorizer :: "ServicePrincipalToken \<Rightarrow> authorizer"
  adal_GetMSIVMEndpoint :: "error + string"
  adal_NewServicePrincipalTokenFromMSI :: "string \<Rightarrow> string \<Rightarrow> error + ServicePrincipalToken"
  adal_NewServicePrincipalTokenFromMSIWithUserAssignedID ::
    "string \<Rightarrow> string \<Rightarrow> string \<Rightarrow> error + ServicePrincipalToken"
  client_List :: "AccountsClient \<Rightarrow> error + Account list option"
  client_ListKeys :: "AccountsClient \<Rightarrow> string \<Rightarrow> string \<Rightarrow> error + AccountKey list option"

subsection \<open>azureDefaultSubscription\<close>

text \<open>The loop over \<^verbatim>\<open>profile.Subscriptions\<close> and the error after it.\<close>

fun azureDefaultSubscription_scan :: "Subscription list \<Rightarrow> error + Subscription" where
  "azureDefaultSubscription_scan [] = Inl UnableToFindDefaultSubscription"
| "azureDefaultSubscription_scan (s # ss) =
     (if IsDefault s then Inr s else azureDefaultSubscription_scan ss)"

definition azureDefaultSubscription :: "world \<Rightarrow> (error + Subscription) io" where
  "azureDefaultSubscription w =
     io_bind (io_call Call_cli_ProfilePath (cli_ProfilePath w)) (\<lambda>r.
       case r of
         Inl err \<Rightarrow> io_return (Inl err)
       | Inr profilePath \<Rightarrow>
           io_bind (io_call Call_cli_LoadProfile (cli_LoadProfile w profilePath)) (\<lambda>r.
             case r of
               Inl err \<Rightarrow> io_return (Inl err)
             | Inr profile \<Rightarrow>
                 io_return (azureDefaultSubscription_scan (Subscriptions profile))))"

subsection \<open>azureFindAccount\<close>

text \<open>
  The loop over \<^verbatim>\<open>*accountsRes.Value\<close>. The results are the three values Go returns:
  endpoint, resource group, error (\<open>None\<close> is nil).
\<close>

fun azureFindAccount_scan ::
  "Account list \<Rightarrow> string \<Rightarrow> (string \<times> string \<times> error option) go" where
  "azureFindAccount_scan [] account = Returns ('''', '''', Some (AccountNotFound account))"
| "azureFindAccount_scan (acc # rest) account =
     (case Name acc of
        None \<Rightarrow> Panics
      | Some name \<Rightarrow>
          if name = account then
            (case AccountID acc of
               None \<Rightarrow> Panics
             | Some accID \<Rightarrow>
                 (let parts = SplitN accID CHR ''/'' 6 in
                  if length parts \<noteq> 6 then
                    Returns ('''', '''', Some (MalformedAccountId accID))
                  else
                    (case PrimaryEndpoints_Blob acc of
                       None \<Rightarrow> Panics
                     | Some blob \<Rightarrow> Returns (blob, parts ! 4, None))))
          else azureFindAccount_scan rest account)"

definition azureFindAccount ::
  "world \<Rightarrow> AccountsClient \<Rightarrow> string \<Rightarrow> (string \<times> string \<times> error option) go io" where
  "azureFindAccount w client account =
     io_bind (io_call Call_client_List (client_List w client)) (\<lambda>r.
       case r of
         Inl err \<Rightarrow> io_return (Returns ('''', '''', Some err))
       | Inr None \<Rightarrow> io_return Panics
       | Inr (Some accounts) \<Rightarrow> io_return (azureFindAccount_scan accounts account))"

subsection \<open>sptTest, tokenToAuthorizer, msiToAuthorizer\<close>

definition sptTest :: "world \<Rightarrow> ServicePrincipalToken \<Rightarrow> (error + authorizer) io" where
  "sptTest w spt =
     io_bind (io_call Call_EnsureFresh (EnsureFresh w spt)) (\<lambda>err.
       case err of
         Some e \<Rightarrow> io_return (Inl e)
       | None \<Rightarrow> io_return (Inr (NewBearerAuthorizer w spt)))"

definition tokenToAuthorizer :: "world \<Rightarrow> Token \<Rightarrow> (error + authorizer) io" where
  "tokenToAuthorizer w t =
     (case url_Parse w (Authority t) of
        Inl err \<Rightarrow> io_return (Inl err)
      | Inr u \<Rightarrow>
          (let tenantId = Path u; u' = u\<lparr>Path := ''''\<rparr> in
           io_bind (io_call Call_adal_NewOAuthConfig
                      (adal_NewOAuthConfig w (url_String w u') tenantId)) (\<lambda>r.
             case r of
               Inl err \<Rightarrow> io_return (Inl err)
             | Inr oauth \<Rightarrow>
                 io_bind (io_call Call_ToADALToken (ToADALToken w t)) (\<lambda>r.
                   case r of
                     Inl err \<Rightarrow> io_return (Inl err)
                   | Inr aToken \<Rightarrow>
                       io_bind (io_call Call_adal_NewServicePrincipalTokenFromManualToken
                                  (adal_NewServicePrincipalTokenFromManualToken w oauth
                                     (ClientID t) (Resource t) aToken)) (\<lambda>r.
                         case r of
                           Inl err \<Rightarrow> io_return (Inl err)
                         | Inr spt \<Rightarrow> sptTest w spt)))))"

definition msiToAuthorizer :: "world \<Rightarrow> MSIConfig \<Rightarrow> (error + authorizer) io" where
  "msiToAuthorizer w mc =
     io_bind (io_call Call_adal_GetMSIVMEndpoint (adal_GetMSIVMEndpoint w)) (\<lambda>r.
       case r of
         Inl err \<Rightarrow> io_return (Inl err)
       | Inr msiEndpoint \<Rightarrow>
           io_bind
             (if MSI_ClientID mc = '''' then
                io_call Call_adal_NewServicePrincipalTokenFromMSI
                  (adal_NewServicePrincipalTokenFromMSI w msiEndpoint (MSI_Resource mc))
              else
                io_call Call_adal_NewServicePrincipalTokenFromMSIWithUserAssignedID
                  (adal_NewServicePrincipalTokenFromMSIWithUserAssignedID w msiEndpoint
                     (MSI_Resource mc) (MSI_ClientID mc))) (\<lambda>r.
             case r of
               Inl err \<Rightarrow> io_return (Inl err)
             | Inr spt \<Rightarrow> sptTest w spt))"

subsection \<open>AzureAuthorizerConfig.Authorizer\<close>

text \<open>The keys of \<^verbatim>\<open>env.Values\<close> (constants of the auth package) and \<^verbatim>\<open>env.GetMSI()\<close>.\<close>

definition auth_Resource :: string where
  "auth_Resource = ''AZURE_AD_RESOURCE''"

definition auth_ActiveDirectoryEndpoint :: string where
  "auth_ActiveDirectoryEndpoint = ''ActiveDirectoryEndpoint''"

definition auth_ClientID :: string where
  "auth_ClientID = ''AZURE_CLIENT_ID''"

definition GetMSI :: "EnvironmentSettings \<Rightarrow> MSIConfig" where
  "GetMSI env = \<lparr>MSI_Resource = Values env auth_Resource, MSI_ClientID = Values env auth_ClientID\<rparr>"

text \<open>Lines 183-184: the fallback.\<close>

definition Authorizer_msi :: "world \<Rightarrow> EnvironmentSettings \<Rightarrow> (error + authorizer) io" where
  "Authorizer_msi w env = msiToAuthorizer w (GetMSI env)"

text \<open>
  Lines 167-176: the loop over the cached tokens. \<open>err\<close> is the variable declared with
  \<^verbatim>\<open>accessTokens\<close>, which the loop assigns; the result is \<open>Inl\<close> of the authorizer the
  loop returned with, or \<open>Inr\<close> of that variable when the loop ran to its end.
\<close>

fun Authorizer_scan ::
  "world \<Rightarrow> string \<Rightarrow> Token list \<Rightarrow> error option \<Rightarrow> (authorizer + error option) io" where
  "Authorizer_scan w adEndpoint [] err = io_return (Inr err)"
| "Authorizer_scan w adEndpoint (t # ts) err =
     (if Authority t = adEndpoint then
        io_bind (tokenToAuthorizer w t) (\<lambda>r.
          case r of
            Inr authorizer \<Rightarrow> io_return (Inl authorizer)
          | Inl e \<Rightarrow> Authorizer_scan w adEndpoint ts (Some e))
      else Authorizer_scan w adEndpoint ts err)"

text \<open>Lines 153-181: the two defaults written into \<^verbatim>\<open>env.Values\<close>, then the token cache.\<close>

definition Authorizer_env_defaults :: "EnvironmentSettings \<Rightarrow> EnvironmentSettings" where
  "Authorizer_env_defaults env =
     (let env1 = (if Values env auth_Resource = ''''
                  then env\<lparr>Values := (Values env)(auth_Resource := ResourceManagerEndpoint env)\<rparr>
                  else env);
          env2 = (if Values env1 auth_ActiveDirectoryEndpoint = ''''
                  then env1\<lparr>Values := (Values env1)
                         (auth_ActiveDirectoryEndpoint := ActiveDirectoryEndpoint env1)\<rparr>
                  else env1)
      in env2)"

definition adEndpoint_of :: "EnvironmentSettings \<Rightarrow> string \<Rightarrow> string" where
  "adEndpoint_of env tenantId =
     Trim (Values env auth_ActiveDirectoryEndpoint) ''/'' @ ''/'' @ tenantId"

definition Authorizer_cached ::
  "world \<Rightarrow> EnvironmentSettings \<Rightarrow> string \<Rightarrow> (error + authorizer) io" where
  "Authorizer_cached w env0 tenantId =
     (let env = Authorizer_env_defaults env0;
          adEndpoint = adEndpoint_of env tenantId in
      io_bind (io_call Call_cli_AccessTokensPath (cli_AccessTokensPath w)) (\<lambda>r.
        case r of
          Inl _ \<Rightarrow> Authorizer_msi w env
        | Inr accessTokensPath \<Rightarrow>
            io_bind (io_call Call_cli_LoadTokens (cli_LoadTokens w accessTokensPath)) (\<lambda>r.
              case r of
                Inl err \<Rightarrow> io_return (Inl err)
              | Inr accessTokens \<Rightarrow>
                  io_bind (Authorizer_scan w adEndpoint accessTokens None) (\<lambda>r.
                    case r of
                      Inl authorizer \<Rightarrow> io_return (Inr authorizer)
                    | Inr (Some err) \<Rightarrow> io_return (Inl err)
                    | Inr None \<Rightarrow> Authorizer_msi w env))))"

text \<open>Lines 146-151: the settings file.\<close>

definition Authorizer_file ::
  "world \<Rightarrow> EnvironmentSettings \<Rightarrow> string \<Rightarrow> (error + authorizer) io" where
  "Authorizer_file w env tenantId =
     io_bind (io_call Call_auth_GetSettingsFromFile (auth_GetSettingsFromFile w)) (\<lambda>r.
       case r of
         Inl _ \<Rightarrow> Authorizer_cached w env tenantId
       | Inr settings \<Rightarrow>
           io_bind (io_call Call_ClientCredentialsAuthorizerWithResource
                      (ClientCredentialsAuthorizerWithResource w settings auth_Resource)) (\<lambda>r.
             case r of
               Inr authorizer \<Rightarrow> io_return (Inr authorizer)
             | Inl _ \<Rightarrow> Authorizer_cached w env tenantId))"

text \<open>Lines 135-144: the settings of the environment and its client credentials.\<close>

definition Authorizer_env :: "world \<Rightarrow> string \<Rightarrow> (error + authorizer) io" where
  "Authorizer_env w tenantId =
     io_bind (io_call Call_auth_GetSettingsFromEnvironment
                (auth_GetSettingsFromEnvironment w)) (\<lambda>r.
       case r of
         Inl err \<Rightarrow> io_return (Inl err)
       | Inr env \<Rightarrow>
           io_bind (io_call Call_GetClientCredentials (GetClientCredentials w env)) (\<lambda>r.
             case r of
               Inl _ \<Rightarrow> Authorizer_file w env tenantId
             | Inr cred \<Rightarrow>
                 io_bind (io_call Call_cred_Authorizer (cred_Authorizer w cred)) (\<lambda>r.
                   case r of
                     Inr authorizer \<Rightarrow> io_return (Inr authorizer)
                   | Inl _ \<Rightarrow> Authorizer_file w env tenantId)))"

text \<open>The method; \<open>tenantId\<close> is the receiver's field \<^verbatim>\<open>c.TenantId\<close>.\<close>

definition Authorizer :: "world \<Rightarrow> string \<Rightarrow> (error + authorizer) io" where
  "Authorizer w tenantId =
     (if tenantId = '''' then
        io_bind (azureDefaultSubscription w) (\<lambda>r.
          case r of
            Inl err \<Rightarrow> io_return (Inl err)
          | Inr defaultSubscription \<Rightarrow> Authorizer_env w (TenantID defaultSubscription))
      else Authorizer_env w tenantId)"

subsection \<open>azureAccountsClient\<close>

text \<open>
  The two results Go returns: the client (the zero client before
  \<^verbatim>\<open>NewAccountsClient\<close>) and the error.
\<close>

definition zero_AccountsClient :: AccountsClient where
  "zero_AccountsClient = \<lparr>SubscriptionID = '''', Authorizer_of = None\<rparr>"

definition NewAccountsClient :: "string \<Rightarrow> AccountsClient" where
  "NewAccountsClient subscriptionID = \<lparr>SubscriptionID = subscriptionID, Authorizer_of = None\<rparr>"

definition azureAccountsClient :: "world \<Rightarrow> string \<Rightarrow> (AccountsClient \<times> error option) io" where
  "azureAccountsClient w account =
     io_bind (azureDefaultSubscription w) (\<lambda>r.
       case r of
         Inl err \<Rightarrow> io_return (zero_AccountsClient, Some err)
       | Inr defaultSubscription \<Rightarrow>
           io_bind (io_call Call_NewAccountsClient
                      (NewAccountsClient (ID defaultSubscription))) (\<lambda>c.
             io_bind (Authorizer w (TenantID defaultSubscription)) (\<lambda>r.
               case r of
                 Inl err \<Rightarrow> io_return (c, Some err)
               | Inr authorizer \<Rightarrow>
                   io_return (c\<lparr>Authorizer_of := Some authorizer\<rparr>, None))))"

subsection \<open>AzureBlobConfig\<close>

record AZBlobConfig =
  Endpoint :: string
  AccountName :: string
  AccountKey :: string
  SasToken :: "string option"
  TokenRenewBuffer :: int
  Container :: string
  Prefix :: string

text \<open>The zero value of the struct, which the named result \<^verbatim>\<open>config\<close> starts with.\<close>

definition zero_AZBlobConfig :: AZBlobConfig where
  "zero_AZBlobConfig =
     \<lparr>Endpoint = '''', AccountName = '''', AccountKey = '''', SasToken = None,
      TokenRenewBuffer = 0, Container = '''', Prefix = ''''\<rparr>"

text \<open>\<^verbatim>\<open>time.Duration\<close> counts nanoseconds; \<^verbatim>\<open>Init\<close> sets fifteen minutes.\<close>

definition Minute :: int where
  "Minute = 60 * 1000000000"

definition Init :: "AZBlobConfig \<Rightarrow> AZBlobConfig" where
  "Init config = config\<lparr>TokenRenewBuffer := 15 * Minute\<rparr>"

definition StorageEndpointSuffix :: string where
  "StorageEndpointSuffix = ''core.windows.net''"

definition emulator_endpoint :: string where
  "emulator_endpoint = ''http://127.0.0.1:8080/devstoreaccount1/''"

text \<open>Lines 254-265: the endpoint inside the wasb url. The results are the endpoint and the config.\<close>

definition AzureBlobConfig_wasb :: "world \<Rightarrow> string \<Rightarrow> string \<Rightarrow> string \<times> AZBlobConfig" where
  "AzureBlobConfig_wasb w endpoint wasb =
     (let at = Index wasb CHR ''@'' in
      if at \<noteq> - 1 then
        (let storageEndpoint = ''https://'' @ drop (nat (at + 1)) wasb in
         case url_Parse w storageEndpoint of
           Inr u \<Rightarrow>
             (storageEndpoint,
              zero_AZBlobConfig\<lparr>Container := take (nat at) wasb, Prefix := Trim (Path u) ''/''\<rparr>)
         | Inl _ \<Rightarrow> (endpoint, zero_AZBlobConfig))
      else (endpoint, zero_AZBlobConfig))"

text \<open>
  Lines 267-279: the account inside the endpoint; \<open>Inl\<close> is the error the function returns
  with, \<open>Inr\<close> the account it goes on with.
\<close>

definition AzureBlobConfig_account :: "world \<Rightarrow> string \<Rightarrow> string \<Rightarrow> error + string" where
  "AzureBlobConfig_account w endpoint account =
     (if endpoint \<noteq> '''' \<and> endpoint \<noteq> emulator_endpoint then
        (case url_Parse w endpoint of
           Inl err \<Rightarrow> Inl err
         | Inr u \<Rightarrow>
             (let dot = Index (Hostname u) CHR ''.'' in
              if dot \<noteq> - 1 then Inr (take (nat dot) (Hostname u)) else Inr account))
      else Inr account)"

text \<open>
  Lines 281-300: the config file of the Azure CLI. The results are the account, the key and
  the directory. The ini file is a map from section names to maps from key names to values;
  a missing section or key is the error the source ignores.
\<close>

definition AzureBlobConfig_ini ::
  "world \<Rightarrow> string \<Rightarrow> string \<Rightarrow> string \<Rightarrow> (string \<times> string \<times> string) io" where
  "AzureBlobConfig_ini w account key configDir =
     (if account = '''' \<or> key = '''' then
        (let configDir' = (if configDir = '''' then homedir_Expand w ''~/.azure'' else configDir) in
         io_bind (io_call Call_ini_Load (ini_Load w (configDir' @ ''/config''))) (\<lambda>r.
           case r of
             Inl _ \<Rightarrow> io_return (account, key, configDir')
           | Inr config \<Rightarrow>
               (case config ''storage'' of
                  None \<Rightarrow> io_return (account, key, configDir')
                | Some sect \<Rightarrow>
                    (let account' =
                           (if account = '''' then
                              (case sect ''account'' of Some v \<Rightarrow> v | None \<Rightarrow> account)
                            else account);
                         key' =
                           (if key = '''' then
                              (case sect ''key'' of Some v \<Rightarrow> v | None \<Rightarrow> key)
                            else key)
                     in io_return (account', key', configDir')))))
      else io_return (account, key, configDir))"

text \<open>
  Lines 332-340: the choice among the listed keys. The loop stops at the first key with full
  permission; the assignment after the loop is not guarded.
\<close>

fun AzureBlobConfig_full_key :: "AccountKey list \<Rightarrow> string \<Rightarrow> string go" where
  "AzureBlobConfig_full_key [] key = Returns key"
| "AzureBlobConfig_full_key (k # ks) key =
     (if Permissions k = Full then
        (case Value k of None \<Rightarrow> Panics | Some v \<Rightarrow> Returns v)
      else AzureBlobConfig_full_key ks key)"

definition AzureBlobConfig_select_key :: "AccountKey list \<Rightarrow> string \<Rightarrow> string go" where
  "AzureBlobConfig_select_key keys key =
     (case AzureBlobConfig_full_key keys key of
        Panics \<Rightarrow> Panics
      | Returns key1 \<Rightarrow>
          (case keys of
             [] \<Rightarrow> Panics
           | k0 # _ \<Rightarrow> (case Value k0 of None \<Rightarrow> Panics | Some v \<Rightarrow> Returns v)))"

text \<open>Lines 347-359: the default endpoint and the fields of the result.\<close>

definition AzureBlobConfig_finish ::
  "AZBlobConfig \<Rightarrow> string \<Rightarrow> string \<Rightarrow> string \<Rightarrow> error option \<Rightarrow> AZBlobConfig \<times> error option" where
  "AzureBlobConfig_finish config endpoint account key err =
     (let endpoint' = (if endpoint = ''''
                       then ''https://'' @ account @ ''.blob.'' @ StorageEndpointSuffix
                       else endpoint)
      in ((Init config)\<lparr>Endpoint := endpoint', AccountName := account, AccountKey := key\<rparr>, err))"

text \<open>
  Lines 308-345: the control plane. \<open>err\<close> is the named result, which the calls assign and
  which the last \<^verbatim>\<open>return\<close> hands back as it then stands.
\<close>

definition AzureBlobConfig_discover ::
  "world \<Rightarrow> AZBlobConfig \<Rightarrow> string \<Rightarrow> string \<Rightarrow> string \<Rightarrow> string \<Rightarrow>
   (AZBlobConfig \<times> error option) go io" where
  "AzureBlobConfig_discover w config endpoint account key configDir =
     (if endpoint = '''' \<or> key = '''' then
        io_bind (azureAccountsClient w account) (\<lambda>(client, err).
          case err of
            Some e \<Rightarrow> io_return (Returns (config, Some e))
          | None \<Rightarrow>
              io_bind (azureFindAccount w client account) (\<lambda>r.
                case r of
                  Panics \<Rightarrow> io_return Panics
                | Returns (endpoint', resourceGroup, err') \<Rightarrow>
                    if err' \<noteq> None \<and> key = '''' then
                      io_return (Returns (config, Some (MissingKey configDir)))
                    else if key = '''' then
                      io_bind (io_call Call_client_ListKeys
                                 (client_ListKeys w client resourceGroup account)) (\<lambda>r.
                        case r of
                          Inl _ \<Rightarrow> io_return (Returns (config, Some (MissingKey configDir)))
                        | Inr None \<Rightarrow> io_return Panics
                        | Inr (Some keys) \<Rightarrow>
                            if length keys = 0 then
                              io_return (Returns (config, Some (MissingKey configDir)))
                            else
                              (case AzureBlobConfig_select_key keys key of
                                 Panics \<Rightarrow> io_return Panics
                               | Returns key' \<Rightarrow>
                                   io_return (Returns
                                     (AzureBlobConfig_finish config endpoint' account key' None))))
                    else
                      io_return (Returns
                        (AzureBlobConfig_finish config endpoint' account key err'))))
      else io_return (Returns (AzureBlobConfig_finish config endpoint account key None)))"

definition AzureBlobConfig :: "world \<Rightarrow> string \<Rightarrow> string \<Rightarrow> (AZBlobConfig \<times> error option) go io" where
  "AzureBlobConfig w endpoint0 wasb =
     (let account0 = os_Getenv w ''AZURE_STORAGE_ACCOUNT'';
          key0 = os_Getenv w ''AZURE_STORAGE_KEY'';
          configDir0 = os_Getenv w ''AZURE_CONFIG_DIR'';
          (endpoint, config) = AzureBlobConfig_wasb w endpoint0 wasb in
      case AzureBlobConfig_account w endpoint account0 of
        Inl err \<Rightarrow> io_return (Returns (config, Some err))
      | Inr account1 \<Rightarrow>
          io_bind (AzureBlobConfig_ini w account1 key0 configDir0) (\<lambda>(account, key, configDir).
            if account = '''' then
              io_return (Returns (config, Some (MissingAccount configDir)))
            else AzureBlobConfig_discover w config endpoint account key configDir))"

section \<open>Sample collaborators\<close>

text \<open>
  A concrete world for the examples: a machine with an Azure CLI profile of two
  subscriptions (the second one the default), no client credentials in the environment, no
  settings file, an empty token cache and a managed identity. \<open>sample_url_Parse\<close> cuts
  \<^verbatim>\<open>scheme://host[:port]/path\<close> at the first slash after the authority, which is what
  \<^verbatim>\<open>url.Parse\<close> returns on the well-formed urls of the examples.
\<close>

definition sample_url_Parse :: "string \<Rightarrow> error + URL" where
  "sample_url_Parse s =
     (let authority = (case dropWhile (\<lambda>x. x \<noteq> CHR ''/'') s of
                         a # b # r \<Rightarrow> if a = CHR ''/'' \<and> b = CHR ''/'' then r else s
                       | _ \<Rightarrow> s);
          host = takeWhile (\<lambda>x. x \<noteq> CHR ''/'') authority
      in Inr \<lparr>Host = host,
              Hostname = takeWhile (\<lambda>x. x \<noteq> CHR '':'') host,
              Path = dropWhile (\<lambda>x. x \<noteq> CHR ''/'') authority\<rparr>)"

definition sub_a :: Subscription where
  "sub_a = \<lparr>ID = ''sub-a'', TenantID = ''tenant-a'', IsDefault = False\<rparr>"

definition sub_b :: Subscription where
  "sub_b = \<lparr>ID = ''sub-b'', TenantID = ''tenant-b'', IsDefault = True\<rparr>"

definition env0 :: EnvironmentSettings where
  "env0 = \<lparr>Values = (\<lambda>_. ''''),
           ResourceManagerEndpoint = ''https://management.azure.com/'',
           ActiveDirectoryEndpoint = ''https://login.microsoftonline.com/''\<rparr>"

definition world0 :: world where
  "world0 =
     \<lparr>os_Getenv = (\<lambda>_. ''''),
      url_Parse = sample_url_Parse,
      url_String = (\<lambda>u. ''https://'' @ Host u @ Path u),
      homedir_Expand = (\<lambda>_. ''/home/user/.azure''),
      ini_Load = (\<lambda>_. Inl (External ''no config file'')),
      cli_ProfilePath = Inr ''/home/user/.azure/azureProfile.json'',
      cli_LoadProfile = (\<lambda>_. Inr \<lparr>Subscriptions = [sub_a, sub_b]\<rparr>),
      auth_GetSettingsFromEnvironment = Inr env0,
      GetClientCredentials = (\<lambda>_. Inl (External ''missing client id'')),
      cred_Authorizer = (\<lambda>_. Inl (External ''no client credentials'')),
      auth_GetSettingsFromFile = Inl (External ''no auth file''),
      ClientCredentialsAuthorizerWithResource = (\<lambda>_ _. Inl (External ''no auth file'')),
      cli_AccessTokensPath = Inr ''/home/user/.azure/accessTokens.json'',
      cli_LoadTokens = (\<lambda>_. Inr []),
      adal_NewOAuthConfig = (\<lambda>a t. Inr (OAuthConfig a t)),
      ToADALToken = (\<lambda>t. if RawToken t = '''' then Inl (External ''bad token'')
                          else Inr (AdalToken (RawToken t))),
      adal_NewServicePrincipalTokenFromManualToken =
        (\<lambda>_ c _ _. Inr (ServicePrincipalToken c)),
      EnsureFresh = (\<lambda>_. None),
      NewBearerAuthorizer = (\<lambda>spt. case spt of ServicePrincipalToken s \<Rightarrow> BearerAuthorizer s),
      adal_GetMSIVMEndpoint = Inr ''http://169.254.169.254/metadata/identity/oauth2/token'',
      adal_NewServicePrincipalTokenFromMSI = (\<lambda>_ _. Inr (ServicePrincipalToken ''msi'')),
      adal_NewServicePrincipalTokenFromMSIWithUserAssignedID =
        (\<lambda>_ _ c. Inr (ServicePrincipalToken c)),
      client_List = (\<lambda>_. Inr (Some [])),
      client_ListKeys = (\<lambda>_ _ _. Inr (Some []))\<rparr>"

definition account_acct :: Account where
  "account_acct =
     \<lparr>Name = Some ''acct'',
      AccountID = Some ''/subscriptions/sub-b/resourceGroups/rg/providers/Microsoft.Storage/storageAccounts/acct'',
      PrimaryEndpoints_Blob = Some ''https://acct.blob.core.windows.net/''\<rparr>"

definition account_short :: Account where
  "account_short =
     \<lparr>Name = Some ''short'',
      AccountID = Some ''/sub/rg/providers/x'',
      PrimaryEndpoints_Blob = Some ''https://short.blob.core.windows.net/''\<rparr>"

definition key_read :: AccountKey where
  "key_read = \<lparr>KeyName = Some ''key1'', Value = Some ''B'', Permissions = Read\<rparr>"

definition key_full :: AccountKey where
  "key_full = \<lparr>KeyName = Some ''key2'', Value = Some ''A'', Permissions = Full\<rparr>"

definition client0 :: AccountsClient where
  "client0 = (NewAccountsClient ''sub-b'')\<lparr>Authorizer_of := Some (BearerAuthorizer ''msi'')\<rparr>"

definition world_accounts :: world where
  "world_accounts = world0\<lparr>client_List := (\<lambda>_. Inr (Some [account_short, account_acct]))\<rparr>"

text \<open>
  The five steps of the chain and the calls that belong to each; \<open>in_order k\<close> holds
  of a log whose calls can be assigned to steps that never decrease, starting at \<open>k\<close>.
  \<^verbatim>\<open>EnsureFresh\<close> is called both for a cached token and for the managed identity.
\<close>

fun steps_of :: "call \<Rightarrow> nat list" where
  "steps_of Call_cli_ProfilePath = [1]"
| "steps_of Call_cli_LoadProfile = [1]"
| "steps_of Call_auth_GetSettingsFromEnvironment = [2]"
| "steps_of Call_GetClientCredentials = [2]"
| "steps_of Call_cred_Authorizer = [2]"
| "steps_of Call_auth_GetSettingsFromFile = [3]"
| "steps_of Call_ClientCredentialsAuthorizerWithResource = [3]"
| "steps_of Call_cli_AccessTokensPath = [4]"
| "steps_of Call_cli_LoadTokens = [4]"
| "steps_of Call_adal_NewOAuthConfig = [4]"
| "steps_of Call_ToADALToken = [4]"
| "steps_of Call_adal_NewServicePrincipalTokenFromManualToken = [4]"
| "steps_of Call_EnsureFresh = [4, 5]"
| "steps_of Call_adal_GetMSIVMEndpoint = [5]"
| "steps_of Call_adal_NewServicePrincipalTokenFromMSI = [5]"
| "steps_of Call_adal_NewServicePrincipalTokenFromMSIWithUserAssignedID = [5]"
| "steps_of _ = []"

fun in_order :: "nat \<Rightarrow> call list \<Rightarrow> bool" where
  "in_order k [] = True"
| "in_order k (c # cs) = (\<exists>j \<in> set (steps_of c). k \<le> j \<and> in_order j cs)"

text \<open>The calls of the three later credential sources.\<close>

definition settings_file_calls :: "call list" where
  "settings_file_calls =
     [Call_auth_GetSettingsFromFile, Call_ClientCredentialsAuthorizerWithResource]"

definition token_cache_calls :: "call list" where
  "token_cache_calls =
     [Call_cli_AccessTokensPath, Call_cli_LoadTokens, Call_adal_NewOAuthConfig,
      Call_ToADALToken, Call_adal_NewServicePrincipalTokenFromManualToken, Call_EnsureFresh]"

definition managed_identity_calls :: "call list" where
  "managed_identity_calls =
     [Call_adal_GetMSIVMEndpoint, Call_adal_NewServicePrincipalTokenFromMSI,
      Call_adal_NewServicePrincipalTokenFromMSIWithUserAssignedID, Call_EnsureFresh]"

text \<open>
  The first three steps neither abort the chain nor yield an authorizer: the tenant is
  \<open>tid\<close> (given, or that of the default subscription), and with the settings \<open>env\<close>
  of the environment neither the client credentials nor the settings file give one.
\<close>

definition reaches_token_cache :: "world \<Rightarrow> string \<Rightarrow> EnvironmentSettings \<Rightarrow> string \<Rightarrow> bool" where
  "reaches_token_cache w tenantId env tid =
     ((if tenantId = '''' then
         (case snd (azureDefaultSubscription w) of
            Inr defaultSubscription \<Rightarrow> tid = TenantID defaultSubscription
          | Inl _ \<Rightarrow> False)
       else tid = tenantId)
      \<and> (case GetClientCredentials w env of
            Inl _ \<Rightarrow> True
          | Inr cred \<Rightarrow> isl (cred_Authorizer w cred))
      \<and> (case auth_GetSettingsFromFile w of
            Inl _ \<Rightarrow> True
          | Inr settings \<Rightarrow> isl (ClientCredentialsAuthorizerWithResource w settings auth_Resource)))"

text \<open>
  Variants of the sample world: client credentials in the environment (and a settings file
  that would work too), a token cache with given entries, a token cache whose path or file
  cannot be read. The stale token has no token material and fails to convert.
\<close>

definition world_envcred :: world where
  "world_envcred =
     world0\<lparr>GetClientCredentials := (\<lambda>_. Inr (ClientCredentialsConfig ''id'' ''secret'' ''tenant-b'')),
            cred_Authorizer := (\<lambda>_. Inr (BearerAuthorizer ''client-credentials'')),
            auth_GetSettingsFromFile := Inr (FileSettings ''/home/user/azure.auth''),
            ClientCredentialsAuthorizerWithResource := (\<lambda>_ _. Inr (BearerAuthorizer ''file''))\<rparr>"

definition token_bad :: Token where
  "token_bad = \<lparr>Authority = ''https://login.microsoftonline.com/tenant-b'',
                Resource = ''https://management.core.windows.net/'',
                ClientID = ''cli-stale'', RawToken = ''''\<rparr>"

definition token_good :: Token where
  "token_good = \<lparr>Authority = ''https://login.microsoftonline.com/tenant-b'',
                 Resource = ''https://management.core.windows.net/'',
                 ClientID = ''cli-fresh'', RawToken = ''eyJ0''\<rparr>"

definition token_other :: Token where
  "token_other = \<lparr>Authority = ''https://login.microsoftonline.com/tenant-a'',
                  Resource = ''https://management.core.windows.net/'',
                  ClientID = ''cli-other'', RawToken = ''eyJ1''\<rparr>"

definition world_tokens :: "Token list \<Rightarrow> world" where
  "world_tokens ts = world0\<lparr>cli_LoadTokens := (\<lambda>_. Inr ts)\<rparr>"

definition world_nopath :: world where
  "world_nopath = world0\<lparr>cli_AccessTokensPath := Inl (External ''no home directory'')\<rparr>"

definition world_noload :: world where
  "world_noload = world0\<lparr>cli_LoadTokens := (\<lambda>_. Inl (External ''cannot read accessTokens.json''))\<rparr>"

text \<open>
  Worlds with the account and the key in the environment: one whose listing holds the
  account, one whose listing fails, one whose listing does not hold the account. With the
  sample chain the accounts client gets the authorizer of the managed identity, after the
  calls of \<open>log_client\<close>.
\<close>

definition world_env :: world where
  "world_env =
     world_accounts\<lparr>os_Getenv :=
       (\<lambda>k. if k = ''AZURE_STORAGE_ACCOUNT'' then ''acct''
            else if k = ''AZURE_STORAGE_KEY'' then ''bXlrZXk='' else '''')\<rparr>"

definition world_list_fails :: world where
  "world_list_fails = world_env\<lparr>client_List := (\<lambda>_. Inl (External ''403 Forbidden''))\<rparr>"

definition world_unlisted :: world where
  "world_unlisted = world_env\<lparr>client_List := (\<lambda>_. Inr (Some [account_short]))\<rparr>"

definition client_msi :: AccountsClient where
  "client_msi = \<lparr>SubscriptionID = ''sub-b'', Authorizer_of = Some (BearerAuthorizer ''msi'')\<rparr>"

definition log_client :: "call list" where
  "log_client =
     [Call_cli_ProfilePath, Call_cli_LoadProfile, Call_NewAccountsClient,
      Call_auth_GetSettingsFromEnvironment, Call_GetClientCredentials,
      Call_auth_GetSettingsFromFile, Call_cli_AccessTokensPath, Call_cli_LoadTokens,
      Call_adal_GetMSIVMEndpoint, Call_adal_NewServicePrincipalTokenFromMSI, Call_EnsureFresh]"

text \<open>
  What the second and the third credential source give when they are asked, read off the
  collaborators alone, and the calls that asking them makes: \<open>None\<close> is a source
  that gives no authorizer (no credentials, or credentials that no authorizer can be made
  of). The chain is compared with these.
\<close>

definition env_credentials :: "world \<Rightarrow> EnvironmentSettings \<Rightarrow> authorizer option" where
  "env_credentials w env =
     (case GetClientCredentials w env of
        Inl _ \<Rightarrow> None
      | Inr cred \<Rightarrow> (case cred_Authorizer w cred of Inl _ \<Rightarrow> None | Inr a \<Rightarrow> Some a))"

definition env_credentials_calls :: "world \<Rightarrow> EnvironmentSettings \<Rightarrow> call list" where
  "env_credentials_calls w env =
     [Call_auth_GetSettingsFromEnvironment, Call_GetClientCredentials]
     @ (case GetClientCredentials w env of Inl _ \<Rightarrow> [] | Inr _ \<Rightarrow> [Call_cred_Authorizer])"

definition file_credentials :: "world \<Rightarrow> authorizer option" where
  "file_credentials w =
     (case auth_GetSettingsFromFile w of
        Inl _ \<Rightarrow> None
      | Inr settings \<Rightarrow>
          (case ClientCredentialsAuthorizerWithResource w settings auth_Resource of
             Inl _ \<Rightarrow> None
           | Inr a \<Rightarrow> Some a))"

definition file_credentials_calls :: "world \<Rightarrow> call list" where
  "file_credentials_calls w =
     Call_auth_GetSettingsFromFile
     # (case auth_GetSettingsFromFile w of
          Inl _ \<Rightarrow> []
        | Inr _ \<Rightarrow> [Call_ClientCredentialsAuthorizerWithResource])"

text \<open>
  The calls that converting the cached tokens \<open>ts\<close> makes, one token after the other.
\<close>

definition conversion_calls :: "world \<Rightarrow> Token list \<Rightarrow> call list" where
  "conversion_calls w ts = concat (map (\<lambda>t. fst (tokenToAuthorizer w t)) ts)"

text \<open>
  A sample world whose settings file gives an authorizer, while the environment holds no
  client credentials.
\<close>

definition world_filecred :: world where
  "world_filecred =
     world0\<lparr>auth_GetSettingsFromFile := Inr (FileSettings ''/home/user/azure.auth''),
            ClientCredentialsAuthorizerWithResource := (\<lambda>_ _. Inr (BearerAuthorizer ''file''))\<rparr>"

text \<open>
  The first dot-delimited label of a host name: the characters in front of its first dot.
\<close>

definition first_label :: "string \<Rightarrow> string" where
  "first_label host = takeWhile (\<lambda>x. x \<noteq> CHR ''.'') host"

text \<open>
  A sample world with the account and the key in the environment and a config file of the
  Azure CLI that names another account.
\<close>

definition sample_ini :: ini_file where
  "sample_ini =
     (\<lambda>s. if s = ''storage''
          then Some (\<lambda>k. if k = ''account'' then Some ''inia'' else None)
          else None)"

definition world_env_ini :: world where
  "world_env_ini =
     world_env\<lparr>ini_Load :=
       (\<lambda>p. if p = ''/home/user/.azure/config'' then Inr sample_ini
            else Inl (External ''no config file''))\<rparr>"

section \<open>Properties\<close>

subsection \<open>The log of calls\<close>

lemma io_bind_return [simp]: "io_bind (io_return v) f = f v"
  by (simp add: io_bind_def io_return_def split: prod.splits)

lemma io_bind_call [simp]: "io_bind (io_call c v) f = (c # fst (f v), snd (f v))"
  by (simp add: io_bind_def io_call_def split: prod.splits)

lemma fst_io_return [simp]: "fst (io_return v) = []"
  by (simp add: io_return_def)

lemma snd_io_return [simp]: "snd (io_return v) = v"
  by (simp add: io_return_def)

lemma fst_io_bind: "fst (io_bind m f) = fst m @ fst (f (snd m))"
  by (simp add: io_bind_def split: prod.splits)

lemma snd_io_bind: "snd (io_bind m f) = snd (f (snd m))"
  by (simp add: io_bind_def split: prod.splits)

subsection \<open>The default subscription\<close>

lemma azureDefaultSubscription_scan_find:
  "azureDefaultSubscription_scan ss =
     (case List.find IsDefault ss of
        Some s \<Rightarrow> Inr s
      | None \<Rightarrow> Inl UnableToFindDefaultSubscription)"
  by (induction ss) auto

text \<open>
  Claim C5. Once the profile of the CLI is loaded, \<open>azureDefaultSubscription\<close> returns
  the first subscription of the profile whose \<open>IsDefault\<close> flag is set; when no
  subscription of the profile has the flag (the empty list too), it returns the error
  "Unable to find default azure subscription id" and no subscription at all.
\<close>

theorem azureDefaultSubscription_first_default:
  assumes "cli_ProfilePath w = Inr profilePath"
      and "cli_LoadProfile w profilePath = Inr profile"
  shows "snd (azureDefaultSubscription w) =
           (case List.find IsDefault (Subscriptions profile) of
              Some s \<Rightarrow> Inr s
            | None \<Rightarrow> Inl UnableToFindDefaultSubscription)"
  using assms by (simp add: azureDefaultSubscription_def azureDefaultSubscription_scan_find)

text \<open>
  On the sample profile the second subscription is returned, not the first; on a profile
  without a default, the error.
\<close>

theorem azureDefaultSubscription_first_default_witness:
  "cli_ProfilePath world0 = Inr ''/home/user/.azure/azureProfile.json''
   \<and> cli_LoadProfile world0 ''/home/user/.azure/azureProfile.json''
       = Inr \<lparr>Subscriptions = [sub_a, sub_b]\<rparr>
   \<and> snd (azureDefaultSubscription world0) = Inr sub_b
   \<and> snd (azureDefaultSubscription
            (world0\<lparr>cli_LoadProfile := (\<lambda>_. Inr \<lparr>Subscriptions = [sub_a]\<rparr>)\<rparr>))
       = Inl UnableToFindDefaultSubscription"
  using azureDefaultSubscription_first_default
          [of world0 "''/home/user/.azure/azureProfile.json''" "\<lparr>Subscriptions = [sub_a, sub_b]\<rparr>"]
        azureDefaultSubscription_first_default
          [of "world0\<lparr>cli_LoadProfile := (\<lambda>_. Inr \<lparr>Subscriptions = [sub_a]\<rparr>)\<rparr>"
              "''/home/user/.azure/azureProfile.json''" "\<lparr>Subscriptions = [sub_a]\<rparr>"]
  by (simp add: world0_def sub_a_def sub_b_def)

subsection \<open>The choice of the access key\<close>

lemma AzureBlobConfig_full_key_Panics:
  "AzureBlobConfig_full_key keys key = Panics \<Longrightarrow> \<exists>k \<in> set keys. Value k = None"
  by (induction keys) (auto split: option.splits if_splits)

text \<open>
  Claim C1. On a non-empty list of keys whose values are all present, the key selected is
  the value of the first key of the list, whatever the permissions are and whatever the key
  held before; and on any list, a key that is selected is the value of the first key.
\<close>

theorem AzureBlobConfig_select_key_first:
  assumes "keys \<noteq> []" and "\<forall>k \<in> set keys. Value k \<noteq> None"
  shows "AzureBlobConfig_select_key keys key = Returns (the (Value (hd keys)))
         \<and> (\<forall>keys' key' v. AzureBlobConfig_select_key keys' key' = Returns v
               \<longrightarrow> keys' \<noteq> [] \<and> Value (hd keys') = Some v)"
proof
  show "AzureBlobConfig_select_key keys key = Returns (the (Value (hd keys)))"
    using assms
    by (cases keys)
       (auto simp: AzureBlobConfig_select_key_def split: go.splits option.splits
             dest!: AzureBlobConfig_full_key_Panics)
  show "\<forall>keys' key' v. AzureBlobConfig_select_key keys' key' = Returns v
          \<longrightarrow> keys' \<noteq> [] \<and> Value (hd keys') = Some v"
    by (auto simp: AzureBlobConfig_select_key_def split: go.splits list.splits option.splits)
qed

text \<open>The read-only key B comes first and is selected, although the key A is a full one.\<close>

theorem AzureBlobConfig_select_key_first_witness:
  "[key_read, key_full] \<noteq> []
   \<and> Value key_read \<noteq> None \<and> Value key_full \<noteq> None
   \<and> AzureBlobConfig_full_key [key_read, key_full] '''' = Returns ''A''
   \<and> AzureBlobConfig_select_key [key_read, key_full] '''' = Returns ''B''"
  using AzureBlobConfig_select_key_first [of "[key_read, key_full]" "''''"]
  by (simp add: key_read_def key_full_def)

subsection \<open>The bounded split and the segments of a resource identifier\<close>

lemma segments_not_Nil [simp]: "segments c s \<noteq> []"
  by (induction s) (auto split: list.splits)

lemma dropWhile_all: "\<forall>x \<in> set s. P x \<Longrightarrow> dropWhile P s = []"
  by simp

lemma segments_unfold:
  "segments c s =
     (case dropWhile (\<lambda>x. x \<noteq> c) s of
        [] \<Rightarrow> [s]
      | _ # rest \<Rightarrow> takeWhile (\<lambda>x. x \<noteq> c) s # segments c rest)"
proof (induction s)
  case Nil
  show ?case by simp
next
  case (Cons x xs)
  show ?case
  proof (cases "x = c")
    case True
    then show ?thesis by simp
  next
    case False
    show ?thesis
      using Cons.IH False
      by (cases "dropWhile (\<lambda>x. x \<noteq> c) xs") (simp_all add: dropWhile_all)
  qed
qed

lemma length_genSplit:
  "length (genSplit k c s) = min (Suc k) (length (segments c s))"
proof (induction k arbitrary: s)
  case 0
  have "length (segments c s) \<ge> 1"
    using segments_not_Nil [of c s] by (cases "segments c s") auto
  then show ?case by simp
next
  case (Suc k)
  show ?case
  proof (cases "dropWhile (\<lambda>x. x \<noteq> c) s")
    case Nil
    then have "segments c s = [s]"
      by (subst segments_unfold) (simp add: dropWhile_all)
    with Nil show ?thesis by (simp add: dropWhile_all)
  next
    case (Cons a rest)
    then have "segments c s = takeWhile (\<lambda>x. x \<noteq> c) s # segments c rest"
      by (subst segments_unfold) simp
    with Cons show ?thesis by (simp add: Suc)
  qed
qed

lemma nth_genSplit:
  "i < k \<Longrightarrow> i < length (segments c s) - 1 \<Longrightarrow> genSplit k c s ! i = segments c s ! i"
proof (induction k arbitrary: s i)
  case 0
  then show ?case by simp
next
  case (Suc k)
  show ?case
  proof (cases "dropWhile (\<lambda>x. x \<noteq> c) s")
    case Nil
    with Suc.prems show ?thesis
      by (subst (asm) segments_unfold) (simp add: dropWhile_all)
  next
    case (Cons a rest)
    have seg: "segments c s = takeWhile (\<lambda>x. x \<noteq> c) s # segments c rest"
      by (subst segments_unfold) (simp add: Cons)
    show ?thesis
    proof (cases i)
      case 0
      then show ?thesis by (simp add: Cons seg)
    next
      case (Suc j)
      with Suc.prems have "j < k" "j < length (segments c rest) - 1"
        by (auto simp: seg)
      then have "genSplit k c rest ! j = segments c rest ! j"
        by (rule Suc.IH)
      then show ?thesis by (simp add: Cons seg Suc)
    qed
  qed
qed

lemma length_segments: "length (segments c s) = Suc (count_list s c)"
  by (induction s) (auto split: list.splits)

lemma SplitN_6_length:
  "length (SplitN accID CHR ''/'' 6) \<noteq> 6 \<longleftrightarrow> length (segments CHR ''/'' accID) < 6"
  by (auto simp: SplitN_def length_genSplit min_def)

lemma SplitN_6_nth4:
  "6 \<le> length (segments CHR ''/'' accID) \<Longrightarrow>
   SplitN accID CHR ''/'' 6 ! 4 = segments CHR ''/'' accID ! 4"
  by (simp add: SplitN_def nth_genSplit)

subsection \<open>The lookup of the account\<close>

lemma azureFindAccount_scan_find:
  assumes "\<forall>a \<in> set (takeWhile (\<lambda>a. Name a \<noteq> Some account) accounts). Name a \<noteq> None"
  shows "azureFindAccount_scan accounts account =
     (case List.find (\<lambda>a. Name a = Some account) accounts of
        None \<Rightarrow> Returns ('''', '''', Some (AccountNotFound account))
      | Some acc \<Rightarrow>
          (case AccountID acc of
             None \<Rightarrow> Panics
           | Some accID \<Rightarrow>
               if length (segments CHR ''/'' accID) < 6 then
                 Returns ('''', '''', Some (MalformedAccountId accID))
               else
                 (case PrimaryEndpoints_Blob acc of
                    None \<Rightarrow> Panics
                  | Some blob \<Rightarrow> Returns (blob, segments CHR ''/'' accID ! 4, None))))"
  using assms
proof (induction accounts)
  case Nil
  then show ?case by simp
next
  case (Cons acc rest)
  show ?case
  proof (cases "Name acc = Some account")
    case True
    then show ?thesis
      by (auto simp: Let_def SplitN_6_length SplitN_6_nth4 split: option.splits)
  next
    case False
    with Cons.prems obtain n where n: "Name acc = Some n" "n \<noteq> account"
      by auto
    from False Cons.prems
    have "\<forall>a \<in> set (takeWhile (\<lambda>a. Name a \<noteq> Some account) rest). Name a \<noteq> None"
      by simp
    then show ?thesis using n Cons.IH by simp
  qed
qed

text \<open>
  Claim C8, as stated, fails: the split is bounded by six parts, so an identifier with more
  than six slash-separated segments has no "mismatched" count for the code. The identifier
  of a real storage account has nine segments and is accepted, with the resource group read
  from the segment at index 4.
\<close>

theorem azureFindAccount_long_id_counterexample:
  "length (segments CHR ''/''
      ''/subscriptions/sub-b/resourceGroups/rg/providers/Microsoft.Storage/storageAccounts/acct'') = 9
   \<and> AccountID account_acct =
       Some ''/subscriptions/sub-b/resourceGroups/rg/providers/Microsoft.Storage/storageAccounts/acct''
   \<and> snd (azureFindAccount world_accounts client0 ''acct'') =
       Returns (''https://acct.blob.core.windows.net/'', ''rg'', None)"
  by (simp add: azureFindAccount_def world_accounts_def world0_def account_acct_def
        account_short_def SplitN_def Let_def numeral_eq_Suc)

text \<open>
  Claim C8, amended. When the listing succeeds and no account before the first match has
  a nil name, \<open>azureFindAccount\<close> takes the first account of the list whose name is the
  one asked for. It returns the error "Malformed account id" exactly when the identifier
  of that account has fewer than six slash-separated segments; otherwise it returns the
  blob endpoint of the account with the segment at index 4 as the resource group (segments
  beyond the sixth are accepted). When no account of the list has the name, it returns the
  error "Azure account not found". A nil identifier or endpoint of the matched account is
  a panic.
\<close>

theorem azureFindAccount_first_match:
  assumes "client_List w client = Inr (Some accounts)"
      and "\<forall>a \<in> set (takeWhile (\<lambda>a. Name a \<noteq> Some account) accounts). Name a \<noteq> None"
  shows "snd (azureFindAccount w client account) =
     (case List.find (\<lambda>a. Name a = Some account) accounts of
        None \<Rightarrow> Returns ('''', '''', Some (AccountNotFound account))
      | Some acc \<Rightarrow>
          (case AccountID acc of
             None \<Rightarrow> Panics
           | Some accID \<Rightarrow>
               if length (segments CHR ''/'' accID) < 6 then
                 Returns ('''', '''', Some (MalformedAccountId accID))
               else
                 (case PrimaryEndpoints_Blob acc of
                    None \<Rightarrow> Panics
                  | Some blob \<Rightarrow> Returns (blob, segments CHR ''/'' accID ! 4, None))))"
  using assms by (simp add: azureFindAccount_def azureFindAccount_scan_find)

text \<open>
  On the sample listing: the identifier of five segments is malformed, the second account
  is found behind the first, and an unknown name is not found.
\<close>

theorem azureFindAccount_first_match_witness:
  "client_List world_accounts client0 = Inr (Some [account_short, account_acct])
   \<and> Name account_short \<noteq> None \<and> Name account_acct \<noteq> None
   \<and> snd (azureFindAccount world_accounts client0 ''short'') =
       Returns ('''', '''', Some (MalformedAccountId ''/sub/rg/providers/x''))
   \<and> snd (azureFindAccount world_accounts client0 ''acct'') =
       Returns (''https://acct.blob.core.windows.net/'', ''rg'', None)
   \<and> snd (azureFindAccount world_accounts client0 ''other'') =
       Returns ('''', '''', Some (AccountNotFound ''other''))"
  using azureFindAccount_first_match
          [of world_accounts client0 "[account_short, account_acct]" "''short''"]
        azureFindAccount_first_match
          [of world_accounts client0 "[account_short, account_acct]" "''acct''"]
        azureFindAccount_first_match
          [of world_accounts client0 "[account_short, account_acct]" "''other''"]
  by (simp add: world_accounts_def world0_def account_acct_def account_short_def)

subsection \<open>The order of the calls of the chain\<close>

lemma in_order_mono: "in_order j cs \<Longrightarrow> k \<le> j \<Longrightarrow> in_order k cs"
  by (cases cs) (auto intro: order_trans)

lemma in_order_append:
  "\<forall>c \<in> set t1. j \<in> set (steps_of c) \<Longrightarrow> k \<le> j \<Longrightarrow> in_order j t2 \<Longrightarrow> in_order k (t1 @ t2)"
proof (induction t1 arbitrary: k)
  case Nil
  then show ?case by (simp add: in_order_mono)
next
  case (Cons c t1)
  have "in_order j (t1 @ t2)" using Cons by simp
  with Cons.prems show ?case by auto
qed

lemma in_order_all: "\<forall>c \<in> set t. j \<in> set (steps_of c) \<Longrightarrow> k \<le> j \<Longrightarrow> in_order k t"
  using in_order_append [of t j k "[]"] by simp

lemma log_sptTest: "set (fst (sptTest w spt)) \<subseteq> {Call_EnsureFresh}"
  by (simp add: sptTest_def split: option.splits)

lemma log_tokenToAuthorizer:
  "c \<in> set (fst (tokenToAuthorizer w t)) \<Longrightarrow> 4 \<in> set (steps_of c)"
  using log_sptTest
  by (fastforce simp: tokenToAuthorizer_def Let_def split: sum.splits)

lemma log_msiToAuthorizer:
  "c \<in> set (fst (msiToAuthorizer w mc)) \<Longrightarrow> 5 \<in> set (steps_of c)"
  using log_sptTest
  by (fastforce simp: msiToAuthorizer_def Let_def split: sum.splits if_splits)

lemma log_Authorizer_scan:
  "c \<in> set (fst (Authorizer_scan w ad ts err)) \<Longrightarrow> 4 \<in> set (steps_of c)"
proof (induction ts arbitrary: err)
  case Nil
  then show ?case by simp
next
  case (Cons t ts)
  then show ?case
    by (auto simp: fst_io_bind split: if_splits sum.splits dest: log_tokenToAuthorizer)
qed

lemma log_azureDefaultSubscription:
  "c \<in> set (fst (azureDefaultSubscription w)) \<Longrightarrow> 1 \<in> set (steps_of c)"
  by (auto simp: azureDefaultSubscription_def split: sum.splits)

lemma in_order_msi: "in_order 5 (fst (Authorizer_msi w env))"
  by (rule in_order_all [where j = 5]) (auto simp: Authorizer_msi_def dest: log_msiToAuthorizer)

lemma in_order_cached: "in_order 4 (fst (Authorizer_cached w env tid))"
proof -
  let ?env = "Authorizer_env_defaults env"
  let ?ad = "adEndpoint_of ?env tid"
  have msi: "in_order 4 (fst (Authorizer_msi w ?env))"
    using in_order_msi by (rule in_order_mono) simp
  have scan: "in_order 4 (fst (Authorizer_scan w ?ad ts None) @ t2)" if "in_order 4 t2" for ts t2
    using that by (intro in_order_append [where j = 4]) (auto dest: log_Authorizer_scan)
  show ?thesis
    using msi scan [OF msi] scan [of "[]"]
    by (auto simp: Authorizer_cached_def Let_def fst_io_bind split: sum.splits option.splits)
qed

lemma in_order_file: "in_order 3 (fst (Authorizer_file w env tid))"
  using in_order_mono [OF in_order_cached [of w env tid], of 3]
  by (auto simp: Authorizer_file_def split: sum.splits)

lemma in_order_env: "in_order 2 (fst (Authorizer_env w tid))"
proof -
  have "in_order 2 (fst (Authorizer_file w e tid))" for e
    using in_order_mono [OF in_order_file [of w e tid], of 2] by simp
  then show ?thesis
    by (auto simp: Authorizer_env_def split: sum.splits)
qed

lemma in_order_Authorizer: "in_order 1 (fst (Authorizer w tenantId))"
proof (cases "tenantId = ''''")
  case False
  then show ?thesis using in_order_env [of w tenantId] by (auto simp: Authorizer_def intro: in_order_mono)
next
  case True
  have "in_order 1 (fst (azureDefaultSubscription w) @ t2)" if "in_order 2 t2" for t2
    using that by (intro in_order_append [where j = 1]) (auto dest: log_azureDefaultSubscription intro: in_order_mono)
  from this [OF in_order_env] this [of "[]"] True show ?thesis
    by (auto simp: Authorizer_def fst_io_bind split: sum.splits)
qed

subsection \<open>The token cache and the managed identity\<close>

lemma Authorizer_to_cached:
  assumes "auth_GetSettingsFromEnvironment w = Inr env"
      and "reaches_token_cache w tenantId env tid"
  shows "snd (Authorizer w tenantId) = snd (Authorizer_cached w env tid)"
    and "Call_adal_GetMSIVMEndpoint \<in> set (fst (Authorizer w tenantId))
         \<longleftrightarrow> Call_adal_GetMSIVMEndpoint \<in> set (fst (Authorizer_cached w env tid))"
proof -
  have F: "Authorizer_file w env tid =
             (fst (Authorizer_file w env tid), snd (Authorizer_cached w env tid))
           \<and> (Call_adal_GetMSIVMEndpoint \<in> set (fst (Authorizer_file w env tid))
               \<longleftrightarrow> Call_adal_GetMSIVMEndpoint \<in> set (fst (Authorizer_cached w env tid)))"
    using assms(2)
    by (auto simp: reaches_token_cache_def Authorizer_file_def prod_eq_iff split: sum.splits)
  have E: "snd (Authorizer_env w tid) = snd (Authorizer_cached w env tid)
           \<and> (Call_adal_GetMSIVMEndpoint \<in> set (fst (Authorizer_env w tid))
               \<longleftrightarrow> Call_adal_GetMSIVMEndpoint \<in> set (fst (Authorizer_cached w env tid)))"
    using assms F
    by (auto simp: reaches_token_cache_def Authorizer_env_def prod_eq_iff split: sum.splits)
  have D: "Call_adal_GetMSIVMEndpoint \<notin> set (fst (azureDefaultSubscription w))"
    by (auto dest: log_azureDefaultSubscription)
  show "snd (Authorizer w tenantId) = snd (Authorizer_cached w env tid)"
    using assms(2) E
    by (auto simp: reaches_token_cache_def Authorizer_def snd_io_bind split: sum.splits if_splits)
  show "Call_adal_GetMSIVMEndpoint \<in> set (fst (Authorizer w tenantId))
         \<longleftrightarrow> Call_adal_GetMSIVMEndpoint \<in> set (fst (Authorizer_cached w env tid))"
    using assms(2) E D
    by (auto simp: reaches_token_cache_def Authorizer_def fst_io_bind split: sum.splits if_splits)
qed

lemma msi_called: "Call_adal_GetMSIVMEndpoint \<in> set (fst (Authorizer_msi w env))"
  by (simp add: Authorizer_msi_def msiToAuthorizer_def)

lemma scan_no_msi: "Call_adal_GetMSIVMEndpoint \<notin> set (fst (Authorizer_scan w ad ts err))"
  by (auto dest: log_Authorizer_scan)

lemma Authorizer_scan_all_fail:
  assumes "\<forall>t \<in> set tokens. Authority t = ad \<longrightarrow> isl (snd (tokenToAuthorizer w t))"
  shows "snd (Authorizer_scan w ad tokens err) =
           Inr (case filter (\<lambda>t. Authority t = ad) tokens of
                  [] \<Rightarrow> err
                | m # ms \<Rightarrow> Some (projl (snd (tokenToAuthorizer w (last (m # ms))))))"
  using assms
proof (induction tokens arbitrary: err)
  case Nil
  then show ?case by simp
next
  case (Cons t ts)
  show ?case
  proof (cases "Authority t = ad")
    case False
    with Cons show ?thesis by simp
  next
    case True
    with Cons.prems obtain e where e: "snd (tokenToAuthorizer w t) = Inl e"
      by (cases "snd (tokenToAuthorizer w t)") auto
    have "snd (Authorizer_scan w ad (t # ts) err) = snd (Authorizer_scan w ad ts (Some e))"
      using True e by (simp add: snd_io_bind)
    also have "\<dots> = Inr (case filter (\<lambda>t. Authority t = ad) ts of
                  [] \<Rightarrow> Some e
                | m # ms \<Rightarrow> Some (projl (snd (tokenToAuthorizer w (last (m # ms))))))"
      using Cons.prems by (intro Cons.IH) simp
    finally show ?thesis
      using True e by (simp split: list.splits)
  qed
qed

lemma Authorizer_scan_skips:
  assumes "\<forall>t \<in> set pre. Authority t = ad \<longrightarrow> isl (snd (tokenToAuthorizer w t))"
      and "Authority good = ad"
      and "snd (tokenToAuthorizer w good) = Inr a"
  shows "snd (Authorizer_scan w ad (pre @ good # post) err) = Inl a"
  using assms(1)
proof (induction pre arbitrary: err)
  case Nil
  then show ?case using assms(2,3) by (simp add: snd_io_bind)
next
  case (Cons t ts)
  show ?case
  proof (cases "Authority t = ad")
    case False
    with Cons show ?thesis by simp
  next
    case True
    with Cons.prems obtain e where e: "snd (tokenToAuthorizer w t) = Inl e"
      by (cases "snd (tokenToAuthorizer w t)") auto
    then show ?thesis using True Cons by (simp add: snd_io_bind)
  qed
qed

lemma Authorizer_cached_path_error:
  assumes "cli_AccessTokensPath w = Inl e"
  shows "Authorizer_cached w env tid =
           (Call_cli_AccessTokensPath # fst (Authorizer_msi w (Authorizer_env_defaults env)),
            snd (Authorizer_msi w (Authorizer_env_defaults env)))"
  using assms by (simp add: Authorizer_cached_def Let_def)

lemma Authorizer_cached_load_error:
  assumes "cli_AccessTokensPath w = Inr path" and "cli_LoadTokens w path = Inl e"
  shows "Authorizer_cached w env tid = ([Call_cli_AccessTokensPath, Call_cli_LoadTokens], Inl e)"
  using assms by (simp add: Authorizer_cached_def Let_def prod_eq_iff)

lemma Authorizer_cached_scan:
  assumes "cli_AccessTokensPath w = Inr path" and "cli_LoadTokens w path = Inr tokens"
      and "r = Authorizer_scan w (adEndpoint_of (Authorizer_env_defaults env) tid) tokens None"
  shows "snd (Authorizer_cached w env tid) =
           (case snd r of
              Inl authorizer \<Rightarrow> Inr authorizer
            | Inr (Some err) \<Rightarrow> Inl err
            | Inr None \<Rightarrow> snd (Authorizer_msi w (Authorizer_env_defaults env)))"
    and "Call_adal_GetMSIVMEndpoint \<in> set (fst (Authorizer_cached w env tid)) \<longleftrightarrow> snd r = Inr None"
  using assms msi_called [of w "Authorizer_env_defaults env"]
        scan_no_msi [of w "adEndpoint_of (Authorizer_env_defaults env) tid" tokens None]
  by (auto simp: Authorizer_cached_def Let_def fst_io_bind snd_io_bind
           split: sum.splits option.splits)

text \<open>Evaluation of the chain in the sample worlds.\<close>

lemma io_bind_pair [simp]: "io_bind (t, v) f = (t @ fst (f v), snd (f v))"
  by (simp add: io_bind_def split: prod.splits)

lemmas sample_defs =
  world_tokens_def world_nopath_def world_noload_def world0_def env0_def sub_a_def sub_b_def
  token_bad_def token_good_def token_other_def sample_url_Parse_def

lemma ad_sample:
  "adEndpoint_of (Authorizer_env_defaults env0) ''tenant-b'' = ''https://login.microsoftonline.com/tenant-b''"
  by (simp add: env0_def Authorizer_env_defaults_def adEndpoint_of_def Trim_def
        auth_Resource_def auth_ActiveDirectoryEndpoint_def)

lemma token_bad_fails:
  "tokenToAuthorizer (world_tokens ts) token_bad =
     ([Call_adal_NewOAuthConfig, Call_ToADALToken], Inl (External ''bad token''))"
  by (simp add: tokenToAuthorizer_def sample_defs Let_def prod_eq_iff)

lemma token_good_converts:
  "tokenToAuthorizer (world_tokens ts) token_good =
     ([Call_adal_NewOAuthConfig, Call_ToADALToken,
       Call_adal_NewServicePrincipalTokenFromManualToken, Call_EnsureFresh],
      Inr (BearerAuthorizer ''cli-fresh''))"
  by (simp add: tokenToAuthorizer_def sptTest_def sample_defs Let_def prod_eq_iff)

lemma msi_sample:
  "adal_GetMSIVMEndpoint w = adal_GetMSIVMEndpoint world0 \<Longrightarrow>
   adal_NewServicePrincipalTokenFromMSI w = adal_NewServicePrincipalTokenFromMSI world0 \<Longrightarrow>
   EnsureFresh w = EnsureFresh world0 \<Longrightarrow>
   NewBearerAuthorizer w = NewBearerAuthorizer world0 \<Longrightarrow>
   Authorizer_msi w (Authorizer_env_defaults env0) =
     ([Call_adal_GetMSIVMEndpoint, Call_adal_NewServicePrincipalTokenFromMSI, Call_EnsureFresh],
      Inr (BearerAuthorizer ''msi''))"
  by (simp add: Authorizer_msi_def msiToAuthorizer_def sptTest_def GetMSI_def
        Authorizer_env_defaults_def env0_def world0_def prod_eq_iff
        auth_Resource_def auth_ActiveDirectoryEndpoint_def auth_ClientID_def)

lemma reaches_sample:
  "reaches_token_cache (world_tokens ts) ''tenant-b'' env0 ''tenant-b''"
  "reaches_token_cache world_nopath ''tenant-b'' env0 ''tenant-b''"
  "reaches_token_cache world_noload ''tenant-b'' env0 ''tenant-b''"
  by (simp_all add: reaches_token_cache_def world_tokens_def world_nopath_def world_noload_def
        world0_def)

lemma steps123_sample:
  assumes "auth_GetSettingsFromEnvironment w = Inr env0"
      and "GetClientCredentials w = GetClientCredentials world0"
      and "auth_GetSettingsFromFile w = auth_GetSettingsFromFile world0"
  shows "Authorizer w ''tenant-b'' =
     ([Call_auth_GetSettingsFromEnvironment, Call_GetClientCredentials,
       Call_auth_GetSettingsFromFile] @ fst (Authorizer_cached w env0 ''tenant-b''),
      snd (Authorizer_cached w env0 ''tenant-b''))"
  using assms
  by (simp add: Authorizer_def Authorizer_env_def Authorizer_file_def world0_def prod_eq_iff)

lemma world_tokens_fields:
  "cli_AccessTokensPath (world_tokens ts) = Inr ''/home/user/.azure/accessTokens.json''"
  "cli_LoadTokens (world_tokens ts) path = Inr ts"
  "auth_GetSettingsFromEnvironment (world_tokens ts) = Inr env0"
  by (simp_all add: world_tokens_def world0_def)

lemma world_nopath_fields:
  "cli_AccessTokensPath world_nopath = Inl (External ''no home directory'')"
  "auth_GetSettingsFromEnvironment world_nopath = Inr env0"
  by (simp_all add: world_nopath_def world0_def)

lemma world_noload_fields:
  "cli_AccessTokensPath world_noload = Inr ''/home/user/.azure/accessTokens.json''"
  "cli_LoadTokens world_noload path = Inl (External ''cannot read accessTokens.json'')"
  "auth_GetSettingsFromEnvironment world_noload = Inr env0"
  by (simp_all add: world_noload_def world0_def)

lemma msi_samples:
  "Authorizer_msi (world_tokens ts) (Authorizer_env_defaults env0) =
     ([Call_adal_GetMSIVMEndpoint, Call_adal_NewServicePrincipalTokenFromMSI, Call_EnsureFresh],
      Inr (BearerAuthorizer ''msi''))"
  "Authorizer_msi world_nopath (Authorizer_env_defaults env0) =
     ([Call_adal_GetMSIVMEndpoint, Call_adal_NewServicePrincipalTokenFromMSI, Call_EnsureFresh],
      Inr (BearerAuthorizer ''msi''))"
  by (rule msi_sample; simp add: world_tokens_def world_nopath_def world0_def)+

text \<open>
  Claim C3, as stated, fails: the loop assigns the error of a failed conversion to the
  variable that the check after the loop reads, so when the last matched token fails
  the chain returns that error. Here the cache holds one token for the authority, its
  conversion fails, the managed identity would have given an authorizer, and it is never
  asked.
\<close>

theorem Authorizer_last_token_fails_counterexample:
  "Authority token_bad = adEndpoint_of (Authorizer_env_defaults env0) ''tenant-b''
   \<and> snd (tokenToAuthorizer (world_tokens [token_bad]) token_bad) = Inl (External ''bad token'')
   \<and> Authorizer (world_tokens [token_bad]) ''tenant-b'' =
       ([Call_auth_GetSettingsFromEnvironment, Call_GetClientCredentials,
         Call_auth_GetSettingsFromFile, Call_cli_AccessTokensPath, Call_cli_LoadTokens,
         Call_adal_NewOAuthConfig, Call_ToADALToken],
        Inl (External ''bad token''))
   \<and> snd (Authorizer_msi (world_tokens [token_bad]) (Authorizer_env_defaults env0))
       = Inr (BearerAuthorizer ''msi'')"
proof -
  let ?w = "world_tokens [token_bad]"
  have a: "Authority token_bad = adEndpoint_of (Authorizer_env_defaults env0) ''tenant-b''"
    by (simp add: ad_sample token_bad_def)
  have c: "Authorizer_cached ?w env0 ''tenant-b'' =
       ([Call_cli_AccessTokensPath, Call_cli_LoadTokens,
         Call_adal_NewOAuthConfig, Call_ToADALToken],
        Inl (External ''bad token''))"
    unfolding Authorizer_cached_def Let_def a [symmetric]
    by (simp add: token_bad_fails world_tokens_fields)
  have s: "Authorizer ?w ''tenant-b'' =
       ([Call_auth_GetSettingsFromEnvironment, Call_GetClientCredentials,
         Call_auth_GetSettingsFromFile] @ fst (Authorizer_cached ?w env0 ''tenant-b''),
        snd (Authorizer_cached ?w env0 ''tenant-b''))"
    by (rule steps123_sample) (simp_all add: world_tokens_def world0_def)
  have m: "Authorizer_msi ?w (Authorizer_env_defaults env0) =
     ([Call_adal_GetMSIVMEndpoint, Call_adal_NewServicePrincipalTokenFromMSI, Call_EnsureFresh],
      Inr (BearerAuthorizer ''msi''))"
    by (rule msi_sample) (simp_all add: world_tokens_def world0_def)
  show ?thesis
    using a by (simp add: s c m token_bad_fails)
qed

text \<open>
  Claim C3, amended. In a run that reaches the token cache and loads it, with no matched
  token converting: when no cached token matches the authority, the chain goes on to the
  managed identity, whose result is the result of the chain; when at least one token
  matches, the chain returns the conversion error of the last matched token and the
  managed identity is not asked.
\<close>

theorem Authorizer_unconverted_tokens:
  assumes "auth_GetSettingsFromEnvironment w = Inr env"
      and "reaches_token_cache w tenantId env tid"
      and "cli_AccessTokensPath w = Inr path"
      and "cli_LoadTokens w path = Inr tokens"
      and "matched = filter (\<lambda>t. Authority t = adEndpoint_of (Authorizer_env_defaults env) tid) tokens"
      and "\<forall>t \<in> set matched. isl (snd (tokenToAuthorizer w t))"
  shows "(matched = [] \<longrightarrow>
            snd (Authorizer w tenantId) = snd (Authorizer_msi w (Authorizer_env_defaults env))
            \<and> Call_adal_GetMSIVMEndpoint \<in> set (fst (Authorizer w tenantId)))
       \<and> (matched \<noteq> [] \<longrightarrow>
            snd (Authorizer w tenantId) = Inl (projl (snd (tokenToAuthorizer w (last matched))))
            \<and> Call_adal_GetMSIVMEndpoint \<notin> set (fst (Authorizer w tenantId)))"
proof -
  let ?ad = "adEndpoint_of (Authorizer_env_defaults env) tid"
  let ?r = "Authorizer_scan w ?ad tokens None"
  have "\<forall>t \<in> set tokens. Authority t = ?ad \<longrightarrow> isl (snd (tokenToAuthorizer w t))"
    using assms(5,6) by simp
  then have S: "snd ?r = Inr (case matched of
                  [] \<Rightarrow> None
                | m # ms \<Rightarrow> Some (projl (snd (tokenToAuthorizer w (last (m # ms))))))"
    unfolding assms(5) by (rule Authorizer_scan_all_fail)
  note R = Authorizer_to_cached [OF assms(1,2)]
  note C = Authorizer_cached_scan [OF assms(3,4) refl, of env tid]
  show ?thesis
    unfolding R C S by (cases matched) simp_all
qed

text \<open>
  A cache with a token of another tenant only falls back to the managed identity; a cache
  with the stale token of this tenant returns the error of its conversion.
\<close>

theorem Authorizer_unconverted_tokens_witness:
  "auth_GetSettingsFromEnvironment (world_tokens [token_other]) = Inr env0
   \<and> reaches_token_cache (world_tokens [token_other]) ''tenant-b'' env0 ''tenant-b''
   \<and> cli_AccessTokensPath (world_tokens [token_other]) = Inr ''/home/user/.azure/accessTokens.json''
   \<and> cli_LoadTokens (world_tokens [token_other]) ''/home/user/.azure/accessTokens.json''
       = Inr [token_other]
   \<and> filter (\<lambda>t. Authority t = adEndpoint_of (Authorizer_env_defaults env0) ''tenant-b'')
        [token_other] = []
   \<and> snd (Authorizer (world_tokens [token_other]) ''tenant-b'') = Inr (BearerAuthorizer ''msi'')
   \<and> Call_adal_GetMSIVMEndpoint \<in> set (fst (Authorizer (world_tokens [token_other]) ''tenant-b''))
   \<and> auth_GetSettingsFromEnvironment (world_tokens [token_bad, token_other]) = Inr env0
   \<and> reaches_token_cache (world_tokens [token_bad, token_other]) ''tenant-b'' env0 ''tenant-b''
   \<and> cli_LoadTokens (world_tokens [token_bad, token_other]) ''/home/user/.azure/accessTokens.json''
       = Inr [token_bad, token_other]
   \<and> filter (\<lambda>t. Authority t = adEndpoint_of (Authorizer_env_defaults env0) ''tenant-b'')
        [token_bad, token_other] = [token_bad]
   \<and> isl (snd (tokenToAuthorizer (world_tokens [token_bad, token_other]) token_bad))
   \<and> snd (Authorizer (world_tokens [token_bad, token_other]) ''tenant-b'')
       = Inl (External ''bad token'')
   \<and> Call_adal_GetMSIVMEndpoint
       \<notin> set (fst (Authorizer (world_tokens [token_bad, token_other]) ''tenant-b''))"
proof -
  let ?ad = "adEndpoint_of (Authorizer_env_defaults env0) ''tenant-b''"
  have f1: "[] = filter (\<lambda>t. Authority t = ?ad) [token_other]"
    by (simp add: ad_sample token_other_def)
  have f2: "[token_bad] = filter (\<lambda>t. Authority t = ?ad) [token_bad, token_other]"
    by (simp add: ad_sample token_other_def token_bad_def)
  have b1: "\<forall>t \<in> set []. isl (snd (tokenToAuthorizer (world_tokens [token_other]) t))"
    by simp
  have b2: "\<forall>t \<in> set [token_bad].
              isl (snd (tokenToAuthorizer (world_tokens [token_bad, token_other]) t))"
    by (simp add: token_bad_fails)
  note T1 = Authorizer_unconverted_tokens [OF world_tokens_fields(3) reaches_sample(1) world_tokens_fields(1,2) f1 b1]
  note T2 = Authorizer_unconverted_tokens [OF world_tokens_fields(3) reaches_sample(1) world_tokens_fields(1,2) f2 b2]
  show ?thesis
    using T1 T2 f1 [symmetric] f2 [symmetric]
    by (simp add: world_tokens_fields reaches_sample msi_samples token_bad_fails)
qed

text \<open>
  Claim C4, as stated, fails in its first part: when the path of the token cache cannot
  be obtained, the block that reads the cache is skipped and the chain falls back to the
  managed identity.
\<close>

theorem Authorizer_token_path_error_counterexample:
  "cli_AccessTokensPath world_nopath = Inl (External ''no home directory'')
   \<and> Authorizer world_nopath ''tenant-b'' =
       ([Call_auth_GetSettingsFromEnvironment, Call_GetClientCredentials,
         Call_auth_GetSettingsFromFile, Call_cli_AccessTokensPath,
         Call_adal_GetMSIVMEndpoint, Call_adal_NewServicePrincipalTokenFromMSI,
         Call_EnsureFresh],
        Inr (BearerAuthorizer ''msi''))"
proof -
  have s: "Authorizer world_nopath ''tenant-b'' =
       ([Call_auth_GetSettingsFromEnvironment, Call_GetClientCredentials,
         Call_auth_GetSettingsFromFile] @ fst (Authorizer_cached world_nopath env0 ''tenant-b''),
        snd (Authorizer_cached world_nopath env0 ''tenant-b''))"
    by (rule steps123_sample) (simp_all add: world_nopath_def world0_def)
  show ?thesis
    by (simp add: s Authorizer_cached_path_error [OF world_nopath_fields(1)] msi_samples
          world_nopath_fields)
qed

text \<open>
  Claim C4, amended. In a run that reaches the token cache: an error obtaining the path of
  the cache is not fatal, the chain falls back to the managed identity and returns its
  result; an error loading the cache file is returned to the caller and the managed
  identity is not asked; a matched token whose conversion fails is skipped, and the first
  matched token behind it that converts gives the result of the chain.
\<close>

theorem Authorizer_token_cache_errors:
  assumes "auth_GetSettingsFromEnvironment w = Inr env"
      and "reaches_token_cache w tenantId env tid"
  shows "(\<forall>e. cli_AccessTokensPath w = Inl e \<longrightarrow>
            snd (Authorizer w tenantId) = snd (Authorizer_msi w (Authorizer_env_defaults env))
            \<and> Call_adal_GetMSIVMEndpoint \<in> set (fst (Authorizer w tenantId)))
       \<and> (\<forall>path e. cli_AccessTokensPath w = Inr path \<and> cli_LoadTokens w path = Inl e \<longrightarrow>
            snd (Authorizer w tenantId) = Inl e
            \<and> Call_adal_GetMSIVMEndpoint \<notin> set (fst (Authorizer w tenantId)))
       \<and> (\<forall>path pre good post a.
            cli_AccessTokensPath w = Inr path
            \<and> cli_LoadTokens w path = Inr (pre @ good # post)
            \<and> (\<forall>t \<in> set pre. Authority t = adEndpoint_of (Authorizer_env_defaults env) tid
                   \<longrightarrow> isl (snd (tokenToAuthorizer w t)))
            \<and> Authority good = adEndpoint_of (Authorizer_env_defaults env) tid
            \<and> snd (tokenToAuthorizer w good) = Inr a \<longrightarrow>
            snd (Authorizer w tenantId) = Inr a)"
proof -
  note R = Authorizer_to_cached [OF assms]
  have 1: "snd (Authorizer w tenantId) = snd (Authorizer_msi w (Authorizer_env_defaults env))
           \<and> Call_adal_GetMSIVMEndpoint \<in> set (fst (Authorizer w tenantId))"
    if "cli_AccessTokensPath w = Inl e" for e
    unfolding R using msi_called by (simp add: Authorizer_cached_path_error [OF that])
  have 2: "snd (Authorizer w tenantId) = Inl e
           \<and> Call_adal_GetMSIVMEndpoint \<notin> set (fst (Authorizer w tenantId))"
    if "cli_AccessTokensPath w = Inr path" "cli_LoadTokens w path = Inl e" for path e
    unfolding R by (simp add: Authorizer_cached_load_error [OF that])
  have 3: "snd (Authorizer w tenantId) = Inr a"
    if "cli_AccessTokensPath w = Inr path" "cli_LoadTokens w path = Inr (pre @ good # post)"
       "\<forall>t \<in> set pre. Authority t = adEndpoint_of (Authorizer_env_defaults env) tid
                   \<longrightarrow> isl (snd (tokenToAuthorizer w t))"
       "Authority good = adEndpoint_of (Authorizer_env_defaults env) tid"
       "snd (tokenToAuthorizer w good) = Inr a" for path pre good post a
    unfolding R Authorizer_cached_scan(1) [OF that(1,2) refl]
    by (simp add: Authorizer_scan_skips [OF that(3,4,5)])
  from 1 2 3 show ?thesis by blast
qed

text \<open>
  The three cases in the sample worlds: no path, an unreadable file, and a stale token in
  front of a fresh one.
\<close>

theorem Authorizer_token_cache_errors_witness:
  "auth_GetSettingsFromEnvironment world_nopath = Inr env0
   \<and> reaches_token_cache world_nopath ''tenant-b'' env0 ''tenant-b''
   \<and> cli_AccessTokensPath world_nopath = Inl (External ''no home directory'')
   \<and> snd (Authorizer world_nopath ''tenant-b'') = Inr (BearerAuthorizer ''msi'')
   \<and> Call_adal_GetMSIVMEndpoint \<in> set (fst (Authorizer world_nopath ''tenant-b''))
   \<and> auth_GetSettingsFromEnvironment world_noload = Inr env0
   \<and> reaches_token_cache world_noload ''tenant-b'' env0 ''tenant-b''
   \<and> cli_AccessTokensPath world_noload = Inr ''/home/user/.azure/accessTokens.json''
   \<and> cli_LoadTokens world_noload ''/home/user/.azure/accessTokens.json''
       = Inl (External ''cannot read accessTokens.json'')
   \<and> snd (Authorizer world_noload ''tenant-b'') = Inl (External ''cannot read accessTokens.json'')
   \<and> Call_adal_GetMSIVMEndpoint \<notin> set (fst (Authorizer world_noload ''tenant-b''))
   \<and> auth_GetSettingsFromEnvironment (world_tokens [token_bad, token_good]) = Inr env0
   \<and> reaches_token_cache (world_tokens [token_bad, token_good]) ''tenant-b'' env0 ''tenant-b''
   \<and> cli_LoadTokens (world_tokens [token_bad, token_good]) ''/home/user/.azure/accessTokens.json''
       = Inr [token_bad, token_good]
   \<and> Authority token_bad = adEndpoint_of (Authorizer_env_defaults env0) ''tenant-b''
   \<and> isl (snd (tokenToAuthorizer (world_tokens [token_bad, token_good]) token_bad))
   \<and> Authority token_good = adEndpoint_of (Authorizer_env_defaults env0) ''tenant-b''
   \<and> snd (tokenToAuthorizer (world_tokens [token_bad, token_good]) token_good)
       = Inr (BearerAuthorizer ''cli-fresh'')
   \<and> snd (Authorizer (world_tokens [token_bad, token_good]) ''tenant-b'')
       = Inr (BearerAuthorizer ''cli-fresh'')"
proof -
  let ?ad = "adEndpoint_of (Authorizer_env_defaults env0) ''tenant-b''"
  let ?w = "world_tokens [token_bad, token_good]"
  have l: "cli_AccessTokensPath world_noload = Inr ''/home/user/.azure/accessTokens.json''
           \<and> cli_LoadTokens world_noload ''/home/user/.azure/accessTokens.json''
               = Inl (External ''cannot read accessTokens.json'')"
    by (simp add: world_noload_fields)
  have a: "Authority token_bad = ?ad" "Authority token_good = ?ad"
    by (simp_all add: ad_sample token_bad_def token_good_def)
  have t: "cli_AccessTokensPath ?w = Inr ''/home/user/.azure/accessTokens.json''
           \<and> cli_LoadTokens ?w ''/home/user/.azure/accessTokens.json''
               = Inr ([token_bad] @ token_good # [])
           \<and> (\<forall>t \<in> set [token_bad]. Authority t = ?ad \<longrightarrow> isl (snd (tokenToAuthorizer ?w t)))
           \<and> Authority token_good = ?ad
           \<and> snd (tokenToAuthorizer ?w token_good) = Inr (BearerAuthorizer ''cli-fresh'')"
    by (simp add: world_tokens_fields token_bad_fails token_good_converts a)
  note A = Authorizer_token_cache_errors [OF world_nopath_fields(2) reaches_sample(2), THEN conjunct1, rule_format,
               OF world_nopath_fields(1)]
  note B = Authorizer_token_cache_errors [OF world_noload_fields(3) reaches_sample(3), THEN conjunct2, THEN conjunct1,
               rule_format, OF l]
  note C = Authorizer_token_cache_errors [OF world_tokens_fields(3) reaches_sample(1), THEN conjunct2, THEN conjunct2,
               rule_format, OF t]
  show ?thesis
    using A B C a
    by (simp add: world_tokens_fields world_nopath_fields world_noload_fields reaches_sample
          msi_samples token_bad_fails token_good_converts)
qed

subsection \<open>The first source that gives an authorizer\<close>

lemma azureDefaultSubscription_calls:
  "snd (azureDefaultSubscription w) = Inr ds \<Longrightarrow>
   fst (azureDefaultSubscription w) = [Call_cli_ProfilePath, Call_cli_LoadProfile]"
  by (auto simp: azureDefaultSubscription_def split: sum.splits)

lemma Authorizer_after_tenant:
  assumes "tenantId = '''' \<longrightarrow> snd (azureDefaultSubscription w) = Inr ds"
      and "tid = (if tenantId = '''' then TenantID ds else tenantId)"
      and "pre = (if tenantId = '''' then [Call_cli_ProfilePath, Call_cli_LoadProfile] else [])"
  shows "Authorizer w tenantId = (pre @ fst (Authorizer_env w tid), snd (Authorizer_env w tid))"
proof (cases "tenantId = ''''")
  case False
  with assms show ?thesis by (simp add: Authorizer_def)
next
  case True
  with assms(1) have s: "snd (azureDefaultSubscription w) = Inr ds" by simp
  from azureDefaultSubscription_calls [OF s] s True assms(2,3) show ?thesis
    by (simp add: Authorizer_def prod_eq_iff fst_io_bind snd_io_bind)
qed

lemma Authorizer_env_first:
  assumes "auth_GetSettingsFromEnvironment w = Inr env"
  shows "Authorizer_env w tid =
           (case env_credentials w env of
              Some a \<Rightarrow>
                ([Call_auth_GetSettingsFromEnvironment, Call_GetClientCredentials,
                  Call_cred_Authorizer], Inr a)
            | None \<Rightarrow>
                (env_credentials_calls w env @ fst (Authorizer_file w env tid),
                 snd (Authorizer_file w env tid)))"
  using assms
  by (simp add: Authorizer_env_def env_credentials_def env_credentials_calls_def prod_eq_iff
           split: sum.splits)

lemma Authorizer_file_first:
  "Authorizer_file w env tid =
     (case file_credentials w of
        Some a \<Rightarrow>
          ([Call_auth_GetSettingsFromFile, Call_ClientCredentialsAuthorizerWithResource], Inr a)
      | None \<Rightarrow>
          (file_credentials_calls w @ fst (Authorizer_cached w env tid),
           snd (Authorizer_cached w env tid)))"
  by (simp add: Authorizer_file_def file_credentials_def file_credentials_calls_def prod_eq_iff
           split: sum.splits)

lemma Authorizer_scan_first:
  assumes "\<forall>t \<in> set (filter (\<lambda>t. Authority t = ad) before). isl (snd (tokenToAuthorizer w t))"
      and "Authority good = ad"
      and "snd (tokenToAuthorizer w good) = Inr a"
  shows "Authorizer_scan w ad (before @ good # after) err =
           (conversion_calls w (filter (\<lambda>t. Authority t = ad) before @ [good]), Inl a)"
  using assms(1)
proof (induction before arbitrary: err)
  case Nil
  then show ?case
    using assms(2,3) by (simp add: conversion_calls_def prod_eq_iff fst_io_bind snd_io_bind)
next
  case (Cons t ts)
  show ?case
  proof (cases "Authority t = ad")
    case False
    with Cons show ?thesis by simp
  next
    case True
    with Cons.prems obtain e where e: "snd (tokenToAuthorizer w t) = Inl e"
      by (cases "snd (tokenToAuthorizer w t)") auto
    have "Authorizer_scan w ad (ts @ good # after) (Some e) =
            (conversion_calls w (filter (\<lambda>t. Authority t = ad) ts @ [good]), Inl a)"
      using Cons.prems by (intro Cons.IH) simp
    then show ?thesis
      using True e by (simp add: conversion_calls_def prod_eq_iff fst_io_bind snd_io_bind)
  qed
qed

lemma Authorizer_scan_no_candidate:
  "filter (\<lambda>t. Authority t = ad) tokens = [] \<Longrightarrow>
   Authorizer_scan w ad tokens err = ([], Inr err)"
  by (induction tokens) (auto simp: io_return_def split: if_splits)

lemma Authorizer_cached_first:
  assumes "cli_AccessTokensPath w = Inr path"
      and "cli_LoadTokens w path = Inr (before @ good # after)"
      and "ad = adEndpoint_of (Authorizer_env_defaults env) tid"
      and "\<forall>t \<in> set (filter (\<lambda>t. Authority t = ad) before). isl (snd (tokenToAuthorizer w t))"
      and "Authority good = ad"
      and "snd (tokenToAuthorizer w good) = Inr a"
  shows "Authorizer_cached w env tid =
           ([Call_cli_AccessTokensPath, Call_cli_LoadTokens]
            @ conversion_calls w (filter (\<lambda>t. Authority t = ad) before @ [good]), Inr a)"
  using assms(1,2) Authorizer_scan_first [OF assms(4,5,6), of after None]
  by (simp add: Authorizer_cached_def Let_def assms(3) [symmetric])

lemma Authorizer_cached_no_candidate:
  assumes "cli_AccessTokensPath w = Inr path"
      and "cli_LoadTokens w path = Inr tokens"
      and "filter (\<lambda>t. Authority t = adEndpoint_of (Authorizer_env_defaults env) tid) tokens = []"
  shows "Authorizer_cached w env tid =
           ([Call_cli_AccessTokensPath, Call_cli_LoadTokens]
            @ fst (msiToAuthorizer w (GetMSI (Authorizer_env_defaults env))),
            snd (msiToAuthorizer w (GetMSI (Authorizer_env_defaults env))))"
  using assms(1,2) Authorizer_scan_no_candidate [OF assms(3), of w None]
  by (simp add: Authorizer_cached_def Let_def Authorizer_msi_def)

lemma conversion_calls_no_msi:
  "Call_adal_GetMSIVMEndpoint \<notin> set (conversion_calls w ts)"
  by (auto simp: conversion_calls_def dest: log_tokenToAuthorizer)

text \<open>
  Claim C2. The calls of \<open>Authorizer\<close> follow the order of its five steps (default
  subscription, client credentials of the environment, settings file, cached tokens,
  managed identity) in every run. In a run whose tenant is resolved (after the two calls
  of the default subscription when none is given) and whose environment settings are
  read, the first source that gives an authorizer gives the result, each source before it
  has been asked, and no source behind it is asked:
  \<^item> when the client credentials of the environment give an authorizer, it is the result
    after the three calls of that step, and neither the settings file nor the token cache
    nor the managed identity is called;
  \<^item> when they give none and the settings file gives an authorizer, it is the result after
    the calls of the two steps, and neither the token cache nor the managed identity is
    called;
  \<^item> when neither gives one and a cached token of the authority converts, all matching
    tokens in front of it failing, its authorizer is the result after the calls of the
    three steps, and the managed identity is not called;
  \<^item> when neither gives one and the token cache has no path or holds no token of the
    authority, the managed identity is asked after the calls of the three steps and its
    result is the result.
\<close>

theorem Authorizer_first_success:
  assumes "tenantId = '''' \<longrightarrow> snd (azureDefaultSubscription w) = Inr ds"
      and "tid = (if tenantId = '''' then TenantID ds else tenantId)"
      and "pre = (if tenantId = '''' then [Call_cli_ProfilePath, Call_cli_LoadProfile] else [])"
      and "auth_GetSettingsFromEnvironment w = Inr env"
      and "ad = adEndpoint_of (Authorizer_env_defaults env) tid"
      and "mc = GetMSI (Authorizer_env_defaults env)"
  shows "(\<forall>w' tenantId'. in_order 1 (fst (Authorizer w' tenantId')))
       \<and> (\<forall>a. env_credentials w env = Some a \<longrightarrow>
            Authorizer w tenantId =
              (pre @ [Call_auth_GetSettingsFromEnvironment, Call_GetClientCredentials,
                      Call_cred_Authorizer], Inr a)
            \<and> set (fst (Authorizer w tenantId))
                \<inter> set (settings_file_calls @ token_cache_calls @ managed_identity_calls) = {})
       \<and> (\<forall>a. env_credentials w env = None \<and> file_credentials w = Some a \<longrightarrow>
            Authorizer w tenantId =
              (pre @ env_credentials_calls w env
                   @ [Call_auth_GetSettingsFromFile, Call_ClientCredentialsAuthorizerWithResource],
               Inr a)
            \<and> set (fst (Authorizer w tenantId))
                \<inter> set (token_cache_calls @ managed_identity_calls) = {})
       \<and> (\<forall>path before good after a.
            env_credentials w env = None \<and> file_credentials w = None
            \<and> cli_AccessTokensPath w = Inr path
            \<and> cli_LoadTokens w path = Inr (before @ good # after)
            \<and> (\<forall>t \<in> set (filter (\<lambda>t. Authority t = ad) before).
                  isl (snd (tokenToAuthorizer w t)))
            \<and> Authority good = ad
            \<and> snd (tokenToAuthorizer w good) = Inr a \<longrightarrow>
            Authorizer w tenantId =
              (pre @ env_credentials_calls w env @ file_credentials_calls w
                   @ [Call_cli_AccessTokensPath, Call_cli_LoadTokens]
                   @ conversion_calls w (filter (\<lambda>t. Authority t = ad) before @ [good]),
               Inr a)
            \<and> Call_adal_GetMSIVMEndpoint \<notin> set (fst (Authorizer w tenantId)))
       \<and> (\<forall>e. env_credentials w env = None \<and> file_credentials w = None
            \<and> cli_AccessTokensPath w = Inl e \<longrightarrow>
            Authorizer w tenantId =
              (pre @ env_credentials_calls w env @ file_credentials_calls w
                   @ [Call_cli_AccessTokensPath] @ fst (msiToAuthorizer w mc),
               snd (msiToAuthorizer w mc)))
       \<and> (\<forall>path tokens.
            env_credentials w env = None \<and> file_credentials w = None
            \<and> cli_AccessTokensPath w = Inr path
            \<and> cli_LoadTokens w path = Inr tokens
            \<and> filter (\<lambda>t. Authority t = ad) tokens = [] \<longrightarrow>
            Authorizer w tenantId =
              (pre @ env_credentials_calls w env @ file_credentials_calls w
                   @ [Call_cli_AccessTokensPath, Call_cli_LoadTokens] @ fst (msiToAuthorizer w mc),
               snd (msiToAuthorizer w mc)))"
proof -
  note A = Authorizer_after_tenant [OF assms(1,2,3)]
  note E = Authorizer_env_first [OF assms(4), of tid]
  note F = Authorizer_file_first [of w env tid]
  have P: "set pre \<subseteq> {Call_cli_ProfilePath, Call_cli_LoadProfile}"
    by (auto simp: assms(3) split: if_splits)
  have EC: "set (env_credentials_calls w env) \<subseteq>
              {Call_auth_GetSettingsFromEnvironment, Call_GetClientCredentials, Call_cred_Authorizer}"
    by (auto simp: env_credentials_calls_def split: sum.splits)
  have FC: "set (file_credentials_calls w) \<subseteq>
              {Call_auth_GetSettingsFromFile, Call_ClientCredentialsAuthorizerWithResource}"
    by (auto simp: file_credentials_calls_def split: sum.splits)
  have 1: "\<forall>w' tenantId'. in_order 1 (fst (Authorizer w' tenantId'))"
    using in_order_Authorizer by blast
  have 2: "Authorizer w tenantId =
              (pre @ [Call_auth_GetSettingsFromEnvironment, Call_GetClientCredentials,
                      Call_cred_Authorizer], Inr a)
            \<and> set (fst (Authorizer w tenantId))
                \<inter> set (settings_file_calls @ token_cache_calls @ managed_identity_calls) = {}"
    if "env_credentials w env = Some a" for a
  proof -
    have eq: "Authorizer w tenantId =
              (pre @ [Call_auth_GetSettingsFromEnvironment, Call_GetClientCredentials,
                      Call_cred_Authorizer], Inr a)"
      by (simp add: A E that)
    have "set (fst (Authorizer w tenantId))
            \<inter> set (settings_file_calls @ token_cache_calls @ managed_identity_calls) = {}"
      unfolding eq using P
      by (auto simp: settings_file_calls_def token_cache_calls_def managed_identity_calls_def)
    with eq show ?thesis by blast
  qed
  have 3: "Authorizer w tenantId =
              (pre @ env_credentials_calls w env
                   @ [Call_auth_GetSettingsFromFile, Call_ClientCredentialsAuthorizerWithResource],
               Inr a)
            \<and> set (fst (Authorizer w tenantId))
                \<inter> set (token_cache_calls @ managed_identity_calls) = {}"
    if "env_credentials w env = None \<and> file_credentials w = Some a" for a
  proof -
    have eq: "Authorizer w tenantId =
              (pre @ env_credentials_calls w env
                   @ [Call_auth_GetSettingsFromFile, Call_ClientCredentialsAuthorizerWithResource],
               Inr a)"
      using that by (simp add: A E F)
    have "set (fst (Authorizer w tenantId))
            \<inter> set (token_cache_calls @ managed_identity_calls) = {}"
      unfolding eq using P EC
      by (auto simp: token_cache_calls_def managed_identity_calls_def)
    with eq show ?thesis by blast
  qed
  have N: "Authorizer w tenantId =
             (pre @ env_credentials_calls w env @ file_credentials_calls w
                  @ fst (Authorizer_cached w env tid),
              snd (Authorizer_cached w env tid))"
    if "env_credentials w env = None" "file_credentials w = None"
    using that by (simp add: A E F)
  have 4: "Authorizer w tenantId =
              (pre @ env_credentials_calls w env @ file_credentials_calls w
                   @ [Call_cli_AccessTokensPath, Call_cli_LoadTokens]
                   @ conversion_calls w (filter (\<lambda>t. Authority t = ad) before @ [good]),
               Inr a)
            \<and> Call_adal_GetMSIVMEndpoint \<notin> set (fst (Authorizer w tenantId))"
    if H: "env_credentials w env = None \<and> file_credentials w = None
            \<and> cli_AccessTokensPath w = Inr path
            \<and> cli_LoadTokens w path = Inr (before @ good # after)
            \<and> (\<forall>t \<in> set (filter (\<lambda>t. Authority t = ad) before).
                  isl (snd (tokenToAuthorizer w t)))
            \<and> Authority good = ad
            \<and> snd (tokenToAuthorizer w good) = Inr a" for path before good after a
  proof -
    have c: "Authorizer_cached w env tid =
           ([Call_cli_AccessTokensPath, Call_cli_LoadTokens]
            @ conversion_calls w (filter (\<lambda>t. Authority t = ad) before @ [good]), Inr a)"
      using H by (intro Authorizer_cached_first [OF _ _ assms(5)]) blast+
    have eq: "Authorizer w tenantId =
              (pre @ env_credentials_calls w env @ file_credentials_calls w
                   @ [Call_cli_AccessTokensPath, Call_cli_LoadTokens]
                   @ conversion_calls w (filter (\<lambda>t. Authority t = ad) before @ [good]),
               Inr a)"
      using H by (simp add: N c)
    have "Call_adal_GetMSIVMEndpoint \<notin> set (fst (Authorizer w tenantId))"
      unfolding eq using P EC FC conversion_calls_no_msi [of w]
      by auto
    with eq show ?thesis by blast
  qed
  have 5: "Authorizer w tenantId =
              (pre @ env_credentials_calls w env @ file_credentials_calls w
                   @ [Call_cli_AccessTokensPath] @ fst (msiToAuthorizer w mc),
               snd (msiToAuthorizer w mc))"
    if H: "env_credentials w env = None \<and> file_credentials w = None
            \<and> cli_AccessTokensPath w = Inl e" for e
  proof -
    from H have p: "cli_AccessTokensPath w = Inl e" by blast
    from H show ?thesis
      by (simp add: N Authorizer_cached_path_error [OF p] Authorizer_msi_def assms(6))
  qed
  have 6: "Authorizer w tenantId =
              (pre @ env_credentials_calls w env @ file_credentials_calls w
                   @ [Call_cli_AccessTokensPath, Call_cli_LoadTokens] @ fst (msiToAuthorizer w mc),
               snd (msiToAuthorizer w mc))"
    if H: "env_credentials w env = None \<and> file_credentials w = None
            \<and> cli_AccessTokensPath w = Inr path
            \<and> cli_LoadTokens w path = Inr tokens
            \<and> filter (\<lambda>t. Authority t = ad) tokens = []" for path tokens
  proof -
    have c: "Authorizer_cached w env tid =
           ([Call_cli_AccessTokensPath, Call_cli_LoadTokens]
            @ fst (msiToAuthorizer w (GetMSI (Authorizer_env_defaults env))),
            snd (msiToAuthorizer w (GetMSI (Authorizer_env_defaults env))))"
      using H by (intro Authorizer_cached_no_candidate) (auto simp: assms(5))
    from H show ?thesis
      by (simp add: N c assms(6))
  qed
  from 1 2 3 4 5 6 show ?thesis by blast
qed

text \<open>Evaluation of the sources in the sample worlds.\<close>

lemma world_envcred_fields:
  "snd (azureDefaultSubscription world_envcred) = Inr sub_b"
  "auth_GetSettingsFromEnvironment world_envcred = Inr env0"
  "env_credentials world_envcred env = Some (BearerAuthorizer ''client-credentials'')"
  "file_credentials world_envcred = Some (BearerAuthorizer ''file'')"
  by (simp_all add: world_envcred_def world0_def azureDefaultSubscription_def sub_a_def sub_b_def
        env_credentials_def file_credentials_def)

lemma world_filecred_fields:
  "snd (azureDefaultSubscription world_filecred) = Inr sub_b"
  "auth_GetSettingsFromEnvironment world_filecred = Inr env0"
  "env_credentials world_filecred env = None"
  "env_credentials_calls world_filecred env =
     [Call_auth_GetSettingsFromEnvironment, Call_GetClientCredentials]"
  "file_credentials world_filecred = Some (BearerAuthorizer ''file'')"
  by (simp_all add: world_filecred_def world0_def azureDefaultSubscription_def sub_a_def sub_b_def
        env_credentials_def env_credentials_calls_def file_credentials_def)

lemma world0_sources:
  assumes "GetClientCredentials w = GetClientCredentials world0"
      and "auth_GetSettingsFromFile w = auth_GetSettingsFromFile world0"
  shows "env_credentials w env = None"
    and "env_credentials_calls w env =
           [Call_auth_GetSettingsFromEnvironment, Call_GetClientCredentials]"
    and "file_credentials w = None"
    and "file_credentials_calls w = [Call_auth_GetSettingsFromFile]"
  by (simp_all add: assms env_credentials_def env_credentials_calls_def file_credentials_def
        file_credentials_calls_def world0_def)

lemma world0_fields:
  "snd (azureDefaultSubscription world0) = Inr sub_b"
  "auth_GetSettingsFromEnvironment world0 = Inr env0"
  "cli_AccessTokensPath world0 = Inr ''/home/user/.azure/accessTokens.json''"
  "cli_LoadTokens world0 path = Inr []"
  by (simp_all add: world0_def azureDefaultSubscription_def sub_a_def sub_b_def)

lemma msiToAuthorizer_sample:
  assumes "adal_GetMSIVMEndpoint w = adal_GetMSIVMEndpoint world0"
      and "adal_NewServicePrincipalTokenFromMSI w = adal_NewServicePrincipalTokenFromMSI world0"
      and "EnsureFresh w = EnsureFresh world0"
      and "NewBearerAuthorizer w = NewBearerAuthorizer world0"
  shows "msiToAuthorizer w (GetMSI (Authorizer_env_defaults env0)) =
     ([Call_adal_GetMSIVMEndpoint, Call_adal_NewServicePrincipalTokenFromMSI, Call_EnsureFresh],
      Inr (BearerAuthorizer ''msi''))"
  using msi_sample [OF assms] by (simp add: Authorizer_msi_def)

text \<open>
  One run for each source. With client credentials in the environment the settings file,
  which would give an authorizer too, is not read; with a settings file the managed
  identity, which would give one too, is not asked; with a stale token, a token of another
  tenant and a fresh token in the cache the fresh one gives the result; without a path of
  the cache, and with an empty cache, the managed identity gives it.
\<close>

theorem Authorizer_first_success_witness:
  "snd (azureDefaultSubscription world_envcred) = Inr sub_b
   \<and> auth_GetSettingsFromEnvironment world_envcred = Inr env0
   \<and> env_credentials world_envcred env0 = Some (BearerAuthorizer ''client-credentials'')
   \<and> file_credentials world_envcred = Some (BearerAuthorizer ''file'')
   \<and> Authorizer world_envcred '''' =
       ([Call_cli_ProfilePath, Call_cli_LoadProfile, Call_auth_GetSettingsFromEnvironment,
         Call_GetClientCredentials, Call_cred_Authorizer],
        Inr (BearerAuthorizer ''client-credentials''))
   \<and> env_credentials world_filecred env0 = None
   \<and> file_credentials world_filecred = Some (BearerAuthorizer ''file'')
   \<and> snd (msiToAuthorizer world_filecred (GetMSI (Authorizer_env_defaults env0)))
       = Inr (BearerAuthorizer ''msi'')
   \<and> Authorizer world_filecred '''' =
       ([Call_cli_ProfilePath, Call_cli_LoadProfile, Call_auth_GetSettingsFromEnvironment,
         Call_GetClientCredentials, Call_auth_GetSettingsFromFile,
         Call_ClientCredentialsAuthorizerWithResource],
        Inr (BearerAuthorizer ''file''))
   \<and> env_credentials (world_tokens [token_bad, token_other, token_good]) env0 = None
   \<and> file_credentials (world_tokens [token_bad, token_other, token_good]) = None
   \<and> snd (msiToAuthorizer (world_tokens [token_bad, token_other, token_good])
             (GetMSI (Authorizer_env_defaults env0)))
       = Inr (BearerAuthorizer ''msi'')
   \<and> Authorizer (world_tokens [token_bad, token_other, token_good]) ''tenant-b'' =
       ([Call_auth_GetSettingsFromEnvironment, Call_GetClientCredentials,
         Call_auth_GetSettingsFromFile, Call_cli_AccessTokensPath, Call_cli_LoadTokens,
         Call_adal_NewOAuthConfig, Call_ToADALToken,
         Call_adal_NewOAuthConfig, Call_ToADALToken,
         Call_adal_NewServicePrincipalTokenFromManualToken, Call_EnsureFresh],
        Inr (BearerAuthorizer ''cli-fresh''))
   \<and> cli_AccessTokensPath world_nopath = Inl (External ''no home directory'')
   \<and> Authorizer world_nopath ''tenant-b'' =
       ([Call_auth_GetSettingsFromEnvironment, Call_GetClientCredentials,
         Call_auth_GetSettingsFromFile, Call_cli_AccessTokensPath,
         Call_adal_GetMSIVMEndpoint, Call_adal_NewServicePrincipalTokenFromMSI,
         Call_EnsureFresh],
        Inr (BearerAuthorizer ''msi''))
   \<and> cli_LoadTokens world0 ''/home/user/.azure/accessTokens.json'' = Inr []
   \<and> Authorizer world0 '''' =
       ([Call_cli_ProfilePath, Call_cli_LoadProfile, Call_auth_GetSettingsFromEnvironment,
         Call_GetClientCredentials, Call_auth_GetSettingsFromFile, Call_cli_AccessTokensPath,
         Call_cli_LoadTokens, Call_adal_GetMSIVMEndpoint,
         Call_adal_NewServicePrincipalTokenFromMSI, Call_EnsureFresh],
        Inr (BearerAuthorizer ''msi''))"
proof -
  let ?ad = "adEndpoint_of (Authorizer_env_defaults env0) ''tenant-b''"
  let ?mc = "GetMSI (Authorizer_env_defaults env0)"
  let ?wt = "world_tokens [token_bad, token_other, token_good]"
  have d: "'''' = '''' \<longrightarrow> snd (azureDefaultSubscription w) = Inr sub_b"
    if "snd (azureDefaultSubscription w) = Inr sub_b" for w
    using that by simp
  have g: "''tenant-b'' = '''' \<longrightarrow> snd (azureDefaultSubscription w) = Inr sub_b" for w
    by simp
  have t1: "''tenant-b'' = (if '''' = '''' then TenantID sub_b else '''')"
    by (simp add: sub_b_def)
  have t2: "''tenant-b'' = (if ''tenant-b'' = '''' then TenantID sub_b else ''tenant-b'')"
    by simp
  have p1: "[Call_cli_ProfilePath, Call_cli_LoadProfile] =
              (if '''' = '''' then [Call_cli_ProfilePath, Call_cli_LoadProfile] else [])"
    by simp
  have p2: "[] = (if ''tenant-b'' = '''' then [Call_cli_ProfilePath, Call_cli_LoadProfile] else [])"
    by simp
  have st: "env_credentials ?wt env0 = None"
           "env_credentials_calls ?wt env0 =
              [Call_auth_GetSettingsFromEnvironment, Call_GetClientCredentials]"
           "file_credentials ?wt = None"
           "file_credentials_calls ?wt = [Call_auth_GetSettingsFromFile]"
    by (rule world0_sources; simp add: world_tokens_def)+
  have sn: "env_credentials world_nopath env0 = None"
           "env_credentials_calls world_nopath env0 =
              [Call_auth_GetSettingsFromEnvironment, Call_GetClientCredentials]"
           "file_credentials world_nopath = None"
           "file_credentials_calls world_nopath = [Call_auth_GetSettingsFromFile]"
    by (rule world0_sources; simp add: world_nopath_def)+
  have s0: "env_credentials world0 env0 = None"
           "env_credentials_calls world0 env0 =
              [Call_auth_GetSettingsFromEnvironment, Call_GetClientCredentials]"
           "file_credentials world0 = None"
           "file_credentials_calls world0 = [Call_auth_GetSettingsFromFile]"
    by (rule world0_sources; simp)+
  have mf: "msiToAuthorizer world_filecred ?mc =
     ([Call_adal_GetMSIVMEndpoint, Call_adal_NewServicePrincipalTokenFromMSI, Call_EnsureFresh],
      Inr (BearerAuthorizer ''msi''))"
    by (rule msiToAuthorizer_sample) (simp_all add: world_filecred_def)
  have mt: "msiToAuthorizer ?wt ?mc =
     ([Call_adal_GetMSIVMEndpoint, Call_adal_NewServicePrincipalTokenFromMSI, Call_EnsureFresh],
      Inr (BearerAuthorizer ''msi''))"
    by (rule msiToAuthorizer_sample) (simp_all add: world_tokens_def)
  have mn: "msiToAuthorizer world_nopath ?mc =
     ([Call_adal_GetMSIVMEndpoint, Call_adal_NewServicePrincipalTokenFromMSI, Call_EnsureFresh],
      Inr (BearerAuthorizer ''msi''))"
    by (rule msiToAuthorizer_sample) (simp_all add: world_nopath_def)
  have m0: "msiToAuthorizer world0 ?mc =
     ([Call_adal_GetMSIVMEndpoint, Call_adal_NewServicePrincipalTokenFromMSI, Call_EnsureFresh],
      Inr (BearerAuthorizer ''msi''))"
    by (rule msiToAuthorizer_sample) simp_all
  have a: "Authority token_bad = ?ad" "Authority token_good = ?ad" "Authority token_other \<noteq> ?ad"
    by (simp_all add: ad_sample token_bad_def token_good_def token_other_def)
  have h2: "env_credentials world_envcred env0 = Some (BearerAuthorizer ''client-credentials'')"
    by (rule world_envcred_fields)
  have h3: "env_credentials world_filecred env0 = None
            \<and> file_credentials world_filecred = Some (BearerAuthorizer ''file'')"
    by (simp add: world_filecred_fields)
  have h4: "env_credentials ?wt env0 = None \<and> file_credentials ?wt = None
            \<and> cli_AccessTokensPath ?wt = Inr ''/home/user/.azure/accessTokens.json''
            \<and> cli_LoadTokens ?wt ''/home/user/.azure/accessTokens.json''
                = Inr ([token_bad, token_other] @ token_good # [])
            \<and> (\<forall>t \<in> set (filter (\<lambda>t. Authority t = ?ad) [token_bad, token_other]).
                  isl (snd (tokenToAuthorizer ?wt t)))
            \<and> Authority token_good = ?ad
            \<and> snd (tokenToAuthorizer ?wt token_good) = Inr (BearerAuthorizer ''cli-fresh'')"
    by (simp add: st world_tokens_fields a token_bad_fails token_good_converts)
  have h5: "env_credentials world_nopath env0 = None \<and> file_credentials world_nopath = None
            \<and> cli_AccessTokensPath world_nopath = Inl (External ''no home directory'')"
    by (simp add: sn world_nopath_fields)
  have h6: "env_credentials world0 env0 = None \<and> file_credentials world0 = None
            \<and> cli_AccessTokensPath world0 = Inr ''/home/user/.azure/accessTokens.json''
            \<and> cli_LoadTokens world0 ''/home/user/.azure/accessTokens.json'' = Inr []
            \<and> filter (\<lambda>t. Authority t = ?ad) [] = []"
    by (simp add: s0 world0_fields)
  note T2 = Authorizer_first_success
              [OF d [OF world_envcred_fields(1)] t1 p1 world_envcred_fields(2) refl refl,
               THEN conjunct2, THEN conjunct1, rule_format, OF h2, THEN conjunct1]
  note T3 = Authorizer_first_success
              [OF d [OF world_filecred_fields(1)] t1 p1 world_filecred_fields(2) refl refl,
               THEN conjunct2, THEN conjunct2, THEN conjunct1, rule_format, OF h3, THEN conjunct1]
  note T4 = Authorizer_first_success
              [OF g t2 p2 world_tokens_fields(3) refl refl,
               THEN conjunct2, THEN conjunct2, THEN conjunct2, THEN conjunct1, rule_format, OF h4,
               THEN conjunct1]
  note T5 = Authorizer_first_success
              [OF g t2 p2 world_nopath_fields(2) refl refl,
               THEN conjunct2, THEN conjunct2, THEN conjunct2, THEN conjunct2, THEN conjunct1,
               rule_format, OF h5]
  note T6 = Authorizer_first_success
              [OF d [OF world0_fields(1)] t1 p1 world0_fields(2) refl refl,
               THEN conjunct2, THEN conjunct2, THEN conjunct2, THEN conjunct2, THEN conjunct2,
               rule_format, OF h6]
  have r2: "Authorizer world_envcred '''' =
       ([Call_cli_ProfilePath, Call_cli_LoadProfile, Call_auth_GetSettingsFromEnvironment,
         Call_GetClientCredentials, Call_cred_Authorizer],
        Inr (BearerAuthorizer ''client-credentials''))"
    using T2 by simp
  have r3: "Authorizer world_filecred '''' =
       ([Call_cli_ProfilePath, Call_cli_LoadProfile, Call_auth_GetSettingsFromEnvironment,
         Call_GetClientCredentials, Call_auth_GetSettingsFromFile,
         Call_ClientCredentialsAuthorizerWithResource],
        Inr (BearerAuthorizer ''file''))"
    using T3 by (simp add: world_filecred_fields)
  have r4: "Authorizer ?wt ''tenant-b'' =
       ([Call_auth_GetSettingsFromEnvironment, Call_GetClientCredentials,
         Call_auth_GetSettingsFromFile, Call_cli_AccessTokensPath, Call_cli_LoadTokens,
         Call_adal_NewOAuthConfig, Call_ToADALToken,
         Call_adal_NewOAuthConfig, Call_ToADALToken,
         Call_adal_NewServicePrincipalTokenFromManualToken, Call_EnsureFresh],
        Inr (BearerAuthorizer ''cli-fresh''))"
    using T4 by (simp add: st a conversion_calls_def token_bad_fails token_good_converts)
  have r5: "Authorizer world_nopath ''tenant-b'' =
       ([Call_auth_GetSettingsFromEnvironment, Call_GetClientCredentials,
         Call_auth_GetSettingsFromFile, Call_cli_AccessTokensPath,
         Call_adal_GetMSIVMEndpoint, Call_adal_NewServicePrincipalTokenFromMSI,
         Call_EnsureFresh],
        Inr (BearerAuthorizer ''msi''))"
    using T5 by (simp add: sn mn)
  have r6: "Authorizer world0 '''' =
       ([Call_cli_ProfilePath, Call_cli_LoadProfile, Call_auth_GetSettingsFromEnvironment,
         Call_GetClientCredentials, Call_auth_GetSettingsFromFile, Call_cli_AccessTokensPath,
         Call_cli_LoadTokens, Call_adal_GetMSIVMEndpoint,
         Call_adal_NewServicePrincipalTokenFromMSI, Call_EnsureFresh],
        Inr (BearerAuthorizer ''msi''))"
    using T6 by (simp add: s0 m0)
  show ?thesis
    unfolding r2 r3 r4 r5 r6
    by (simp add: world_envcred_fields world_filecred_fields st mf mt world_nopath_fields
          world0_fields)
qed

subsection \<open>The parts of AzureBlobConfig\<close>

lemma Index_ge: "- 1 \<le> Index s c"
  by (induction s) (auto simp: Let_def)

lemma Index_split:
  "c \<notin> set pre \<Longrightarrow> Index (pre @ c # rest) c = int (length pre)"
  by (induction pre) (auto simp: Let_def)

lemma in_order_steps: "in_order k cs \<Longrightarrow> c \<in> set cs \<Longrightarrow> steps_of c \<noteq> []"
  by (induction cs arbitrary: k) auto

lemma log_Authorizer: "c \<in> set (fst (Authorizer w tenantId)) \<Longrightarrow> steps_of c \<noteq> []"
  using in_order_Authorizer in_order_steps by blast

lemma log_azureAccountsClient:
  "Call_client_ListKeys \<notin> set (fst (azureAccountsClient w account))"
  "Call_client_List \<notin> set (fst (azureAccountsClient w account))"
  "snd (snd (azureAccountsClient w account)) = None
     \<Longrightarrow> Call_NewAccountsClient \<in> set (fst (azureAccountsClient w account))"
  by (auto simp: azureAccountsClient_def fst_io_bind snd_io_bind split: sum.splits
           dest: log_azureDefaultSubscription log_Authorizer)

lemma log_azureFindAccount:
  "fst (azureFindAccount w client account) = [Call_client_List]"
  by (simp add: azureFindAccount_def split: sum.splits option.splits)

lemma AzureBlobConfig_ini_key:
  "key \<noteq> '''' \<Longrightarrow> fst (snd (snd (AzureBlobConfig_ini w account key configDir))) = key"
  by (simp add: AzureBlobConfig_ini_def Let_def split: sum.splits option.splits)

lemma AzureBlobConfig_ini_account:
  "account \<noteq> '''' \<Longrightarrow> fst (snd (AzureBlobConfig_ini w account key configDir)) = account"
  by (simp add: AzureBlobConfig_ini_def Let_def split: sum.splits option.splits)

lemma AzureBlobConfig_ini_log:
  "set (fst (AzureBlobConfig_ini w account key configDir)) \<subseteq> {Call_ini_Load}"
  by (simp add: AzureBlobConfig_ini_def Let_def split: sum.splits option.splits)

lemma AzureBlobConfig_finish_fields [simp]:
  "AccountName (fst (AzureBlobConfig_finish config endpoint account key err)) = account"
  "AccountKey (fst (AzureBlobConfig_finish config endpoint account key err)) = key"
  "snd (AzureBlobConfig_finish config endpoint account key err) = err"
  "Container (fst (AzureBlobConfig_finish config endpoint account key err)) = Container config"
  "Prefix (fst (AzureBlobConfig_finish config endpoint account key err)) = Prefix config"
  "TokenRenewBuffer (fst (AzureBlobConfig_finish config endpoint account key err)) = 15 * Minute"
  "Endpoint (fst (AzureBlobConfig_finish config endpoint account key err)) =
     (if endpoint = [] then ''https://'' @ account @ ''.blob.'' @ StorageEndpointSuffix
      else endpoint)"
  by (simp_all add: AzureBlobConfig_finish_def Init_def Let_def)

lemma discover_known_key_endpoint:
  assumes "key \<noteq> ''''" and "endpoint \<noteq> ''''"
  shows "AzureBlobConfig_discover w config endpoint account key configDir =
           ([], Returns (AzureBlobConfig_finish config endpoint account key None))"
  using assms by (simp add: AzureBlobConfig_discover_def io_return_def)

lemma discover_known_key_no_endpoint:
  assumes "key \<noteq> ''''"
      and "AzureBlobConfig_discover w config '''' account key configDir = (log, Returns (cfg, None))"
  shows "AccountKey cfg = key \<and> AccountName cfg = account
         \<and> Call_client_ListKeys \<notin> set log
         \<and> Call_NewAccountsClient \<in> set log \<and> Call_client_List \<in> set log"
proof -
  obtain l1 client e1 where c: "azureAccountsClient w account = (l1, client, e1)"
    by (cases "azureAccountsClient w account") auto
  show ?thesis
  proof (cases e1)
    case (Some e)
    with assms c show ?thesis
      by (simp add: AzureBlobConfig_discover_def)
  next
    case None
    have n: "Call_NewAccountsClient \<in> set l1" "Call_client_ListKeys \<notin> set l1"
      using log_azureAccountsClient [of w account] c None by auto
    obtain r where f: "azureFindAccount w client account = ([Call_client_List], r)"
      using log_azureFindAccount [of w client account]
      by (cases "azureFindAccount w client account") auto
    show ?thesis
      using assms c None n f
      by (cases r)
         (auto simp: AzureBlobConfig_discover_def prod_eq_iff split: if_splits)
  qed
qed

lemma AzureBlobConfig_discover_result:
  assumes "AzureBlobConfig_discover w config0 endpoint account key configDir
             = (log, Returns (config, err))"
  shows "Container config = Container config0 \<and> Prefix config = Prefix config0
         \<and> (err = None \<and> Call_client_List \<notin> set log \<longrightarrow> Endpoint config = endpoint)"
proof (cases "endpoint = '''' \<or> key = ''''")
  case False
  with assms show ?thesis
    by (auto simp: AzureBlobConfig_discover_def io_return_def prod_eq_iff)
next
  case True
  obtain l1 client e1 where c: "azureAccountsClient w account = (l1, client, e1)"
    by (cases "azureAccountsClient w account") auto
  show ?thesis
  proof (cases e1)
    case (Some e)
    with assms c True show ?thesis
      by (auto simp: AzureBlobConfig_discover_def io_return_def)
  next
    case None
    obtain r where f: "azureFindAccount w client account = ([Call_client_List], r)"
      using log_azureFindAccount [of w client account]
      by (cases "azureFindAccount w client account") auto
    show ?thesis
    proof (cases r)
      case Panics
      with assms c None f True show ?thesis
        by (auto simp: AzureBlobConfig_discover_def io_return_def)
    next
      case (Returns t)
      obtain endpoint' resourceGroup err' where t: "t = (endpoint', resourceGroup, err')"
        by (cases t) auto
      have L: "Call_client_List \<in> set log"
        using assms c None f True Returns t
        by (auto simp: AzureBlobConfig_discover_def fst_io_bind prod_eq_iff
                 split: if_splits sum.splits option.splits go.splits)
      have "Container config = Container config0 \<and> Prefix config = Prefix config0"
        using assms c None f True Returns t
        by (auto simp: AzureBlobConfig_discover_def prod_eq_iff
                 split: if_splits sum.splits option.splits go.splits)
      with L show ?thesis by simp
    qed
  qed
qed

lemma azureFindAccount_scan_error:
  "azureFindAccount_scan accounts account = Returns (endpoint, resourceGroup, Some e)
     \<Longrightarrow> endpoint = '''' \<and> resourceGroup = ''''"
  by (induction accounts) (auto simp: Let_def split: option.splits if_splits)

lemma azureFindAccount_error:
  "snd (azureFindAccount w client account) = Returns (endpoint, resourceGroup, Some e)
     \<Longrightarrow> endpoint = '''' \<and> resourceGroup = ''''"
  by (auto simp: azureFindAccount_def split: sum.splits option.splits
           dest: azureFindAccount_scan_error)

text \<open>Evaluation of AzureBlobConfig in the sample worlds.\<close>

lemma client_generic:
  assumes "cli_ProfilePath w = cli_ProfilePath world0"
      and "cli_LoadProfile w = cli_LoadProfile world0"
      and "auth_GetSettingsFromEnvironment w = auth_GetSettingsFromEnvironment world0"
      and "GetClientCredentials w = GetClientCredentials world0"
      and "auth_GetSettingsFromFile w = auth_GetSettingsFromFile world0"
      and "cli_AccessTokensPath w = cli_AccessTokensPath world0"
      and "cli_LoadTokens w = cli_LoadTokens world0"
      and "adal_GetMSIVMEndpoint w = adal_GetMSIVMEndpoint world0"
      and "adal_NewServicePrincipalTokenFromMSI w = adal_NewServicePrincipalTokenFromMSI world0"
      and "EnsureFresh w = EnsureFresh world0"
      and "NewBearerAuthorizer w = NewBearerAuthorizer world0"
  shows "azureAccountsClient w account = (log_client, client_msi, None)"
proof -
  have m: "Authorizer_msi w (Authorizer_env_defaults env0) =
     ([Call_adal_GetMSIVMEndpoint, Call_adal_NewServicePrincipalTokenFromMSI, Call_EnsureFresh],
      Inr (BearerAuthorizer ''msi''))"
    using assms(8-11) by (rule msi_sample)
  have c: "Authorizer_cached w env0 ''tenant-b'' =
     ([Call_cli_AccessTokensPath, Call_cli_LoadTokens, Call_adal_GetMSIVMEndpoint,
       Call_adal_NewServicePrincipalTokenFromMSI, Call_EnsureFresh],
      Inr (BearerAuthorizer ''msi''))"
    by (simp add: Authorizer_cached_def Let_def assms(6,7) m world0_def)
  have a: "Authorizer w ''tenant-b'' =
     ([Call_auth_GetSettingsFromEnvironment, Call_GetClientCredentials,
       Call_auth_GetSettingsFromFile, Call_cli_AccessTokensPath, Call_cli_LoadTokens,
       Call_adal_GetMSIVMEndpoint, Call_adal_NewServicePrincipalTokenFromMSI, Call_EnsureFresh],
      Inr (BearerAuthorizer ''msi''))"
    using steps123_sample [OF _ assms(4,5)] assms(3) by (simp add: c world0_def)
  have d: "azureDefaultSubscription w = ([Call_cli_ProfilePath, Call_cli_LoadProfile], Inr sub_b)"
    by (simp add: azureDefaultSubscription_def assms(1,2) world0_def sub_a_def sub_b_def)
  show ?thesis
    by (simp add: azureAccountsClient_def d a NewAccountsClient_def sub_b_def log_client_def
          client_msi_def)
qed

lemma client_sample:
  "azureAccountsClient world_env account = (log_client, client_msi, None)"
  "azureAccountsClient world_list_fails account = (log_client, client_msi, None)"
  "azureAccountsClient world_unlisted account = (log_client, client_msi, None)"
  by (rule client_generic;
      simp add: world_env_def world_list_fails_def world_unlisted_def world_accounts_def)+

lemma world_env_fields:
  "os_Getenv world_env ''AZURE_STORAGE_ACCOUNT'' = ''acct''"
  "os_Getenv world_env ''AZURE_STORAGE_KEY'' = ''bXlrZXk=''"
  "os_Getenv world_env ''AZURE_CONFIG_DIR'' = ''''"
  "url_Parse world_env = sample_url_Parse"
  "client_List world_env client = Inr (Some [account_short, account_acct])"
  by (simp_all add: world_env_def world_accounts_def world0_def)

lemma world_unlisted_fields:
  "os_Getenv world_unlisted ''AZURE_STORAGE_ACCOUNT'' = ''acct''"
  "os_Getenv world_unlisted ''AZURE_STORAGE_KEY'' = ''bXlrZXk=''"
  "os_Getenv world_unlisted ''AZURE_CONFIG_DIR'' = ''''"
  "url_Parse world_unlisted = sample_url_Parse"
  "client_List world_unlisted client = Inr (Some [account_short])"
  by (simp_all add: world_unlisted_def world_env_def world_accounts_def world0_def)

lemma world_list_fails_fields:
  "os_Getenv world_list_fails ''AZURE_STORAGE_ACCOUNT'' = ''acct''"
  "os_Getenv world_list_fails ''AZURE_STORAGE_KEY'' = ''bXlrZXk=''"
  "os_Getenv world_list_fails ''AZURE_CONFIG_DIR'' = ''''"
  "url_Parse world_list_fails = sample_url_Parse"
  "client_List world_list_fails client = Inl (External ''403 Forbidden'')"
  by (simp_all add: world_list_fails_def world_env_def world_accounts_def world0_def)

lemmas blob_steps =
  AzureBlobConfig_def AzureBlobConfig_wasb_def AzureBlobConfig_account_def
  AzureBlobConfig_ini_def AzureBlobConfig_discover_def AzureBlobConfig_finish_def
  azureFindAccount_def zero_AZBlobConfig_def Init_def Minute_def StorageEndpointSuffix_def
  emulator_endpoint_def SplitN_def Trim_def sample_url_Parse_def Let_def
  account_acct_def account_short_def numeral_eq_Suc

lemma blob_env_no_endpoint:
  "AzureBlobConfig world_env '''' '''' =
     (log_client @ [Call_client_List],
      Returns (\<lparr>Endpoint = ''https://acct.blob.core.windows.net/'', AccountName = ''acct'',
                AccountKey = ''bXlrZXk='', SasToken = None, TokenRenewBuffer = 900000000000,
                Container = '''', Prefix = ''''\<rparr>, None))"
  by (simp add: blob_steps world_env_fields client_sample)

lemma blob_env_other_endpoint:
  "AzureBlobConfig world_env ''https://other.blob.core.windows.net'' '''' =
     ([],
      Returns (\<lparr>Endpoint = ''https://other.blob.core.windows.net'', AccountName = ''other'',
                AccountKey = ''bXlrZXk='', SasToken = None, TokenRenewBuffer = 900000000000,
                Container = '''', Prefix = ''''\<rparr>, None))"
  by (simp add: blob_steps world_env_fields io_return_def)

lemma blob_env_wasb:
  "AzureBlobConfig world_env '''' ''cont@acct.blob.core.windows.net/dir/sub/'' =
     ([],
      Returns (\<lparr>Endpoint = ''https://acct.blob.core.windows.net/dir/sub/'', AccountName = ''acct'',
                AccountKey = ''bXlrZXk='', SasToken = None, TokenRenewBuffer = 900000000000,
                Container = ''cont'', Prefix = ''dir/sub''\<rparr>, None))"
  by (simp add: blob_steps world_env_fields io_return_def)

lemma blob_unlisted:
  "AzureBlobConfig world_unlisted '''' '''' =
     (log_client @ [Call_client_List],
      Returns (\<lparr>Endpoint = ''https://acct.blob.core.windows.net'', AccountName = ''acct'',
                AccountKey = ''bXlrZXk='', SasToken = None, TokenRenewBuffer = 900000000000,
                Container = '''', Prefix = ''''\<rparr>, Some (AccountNotFound ''acct'')))"
  by (simp add: blob_steps world_unlisted_fields client_sample)

lemma blob_list_fails:
  "AzureBlobConfig world_list_fails '''' ''backups'' =
     (log_client @ [Call_client_List],
      Returns (\<lparr>Endpoint = ''https://acct.blob.core.windows.net'', AccountName = ''acct'',
                AccountKey = ''bXlrZXk='', SasToken = None, TokenRenewBuffer = 900000000000,
                Container = '''', Prefix = ''''\<rparr>, Some (External ''403 Forbidden'')))"
  by (simp add: blob_steps world_list_fails_fields client_sample)

lemma Index_none: "Index s c = - 1 \<longleftrightarrow> c \<notin> set s"
  using Index_ge [of s c]
proof (induction s)
  case Nil
  then show ?case by simp
next
  case (Cons x xs)
  from Index_ge [of xs c] Cons show ?case by (auto simp: Let_def)
qed

lemma take_Index: "c \<in> set s \<Longrightarrow> take (nat (Index s c)) s = takeWhile (\<lambda>x. x \<noteq> c) s"
proof (induction s)
  case Nil
  then show ?case by simp
next
  case (Cons x xs)
  show ?case
  proof (cases "x = c")
    case True
    then show ?thesis by simp
  next
    case False
    with Cons.prems have m: "c \<in> set xs" by simp
    then have "Index xs c \<noteq> - 1" by (simp add: Index_none)
    moreover have "0 \<le> Index xs c" using Index_ge [of xs c] calculation by arith
    ultimately show ?thesis
      using False Cons.IH [OF m] by (simp add: Let_def nat_add_distrib)
  qed
qed

lemma AzureBlobConfig_account_label:
  assumes "AzureBlobConfig_account w endpoint account = Inr name"
      and "endpoint \<noteq> ''''" and "endpoint \<noteq> emulator_endpoint"
  shows "\<exists>u. url_Parse w endpoint = Inr u
           \<and> name = (if CHR ''.'' \<in> set (Hostname u) then first_label (Hostname u) else account)"
proof (cases "url_Parse w endpoint")
  case (Inl e)
  with assms show ?thesis by (simp add: AzureBlobConfig_account_def)
next
  case (Inr u)
  with assms show ?thesis
    by (auto simp: AzureBlobConfig_account_def Let_def Index_none take_Index first_label_def
             split: if_splits)
qed

lemma AzureBlobConfig_ini_known:
  "account \<noteq> '''' \<Longrightarrow> key \<noteq> '''' \<Longrightarrow>
   AzureBlobConfig_ini w account key configDir = ([], account, key, configDir)"
  by (simp add: AzureBlobConfig_ini_def io_return_def)

lemma AzureBlobConfig_ini_no_account:
  assumes "key \<noteq> ''''"
      and "AzureBlobConfig_ini w '''' key configDir0 = (l, account, key', configDir)"
      and "account \<noteq> ''''"
      and "dir = (if configDir0 = '''' then homedir_Expand w ''~/.azure'' else configDir0)"
  shows "l = [Call_ini_Load] \<and> key' = key
         \<and> (\<exists>ini sect. ini_Load w (dir @ ''/config'') = Inr ini
               \<and> ini ''storage'' = Some sect \<and> sect ''account'' = Some account)"
  using assms
  by (auto simp: AzureBlobConfig_ini_def Let_def io_return_def
           split: sum.splits option.splits if_splits)

subsection \<open>The environment variables\<close>

text \<open>
  Claim C6, as stated, fails twice. With both variables set and an endpoint whose host
  name has a dot, the account name of the result is the first label of that host name,
  not the value of the variable; and with both variables set and no endpoint, the
  accounts client is built and the accounts are listed.
\<close>

theorem AzureBlobConfig_env_overridden_counterexample:
  "os_Getenv world_env ''AZURE_STORAGE_ACCOUNT'' = ''acct''
   \<and> os_Getenv world_env ''AZURE_STORAGE_KEY'' = ''bXlrZXk=''
   \<and> AzureBlobConfig world_env ''https://other.blob.core.windows.net'' '''' =
       ([],
        Returns (\<lparr>Endpoint = ''https://other.blob.core.windows.net'', AccountName = ''other'',
                  AccountKey = ''bXlrZXk='', SasToken = None, TokenRenewBuffer = 900000000000,
                  Container = '''', Prefix = ''''\<rparr>, None))
   \<and> AzureBlobConfig world_env '''' '''' =
       ([Call_cli_ProfilePath, Call_cli_LoadProfile, Call_NewAccountsClient,
         Call_auth_GetSettingsFromEnvironment, Call_GetClientCredentials,
         Call_auth_GetSettingsFromFile, Call_cli_AccessTokensPath, Call_cli_LoadTokens,
         Call_adal_GetMSIVMEndpoint, Call_adal_NewServicePrincipalTokenFromMSI,
         Call_EnsureFresh, Call_client_List],
        Returns (\<lparr>Endpoint = ''https://acct.blob.core.windows.net/'', AccountName = ''acct'',
                  AccountKey = ''bXlrZXk='', SasToken = None, TokenRenewBuffer = 900000000000,
                  Container = '''', Prefix = ''''\<rparr>, None))"
  by (simp add: world_env_fields blob_env_other_endpoint blob_env_no_endpoint log_client_def)

text \<open>
  Claim C6, amended. When both variables are set and AzureBlobConfig returns without an
  error, the account key of the result is the value of the key variable and the keys are
  never listed. The account name and the calls depend on the endpoint (the one given, or
  the one inside the wasb url):
  \<^item> with no endpoint, the account name is the value of the account variable, and the
    accounts client is built and the accounts are listed, once, to find the endpoint;
  \<^item> with the endpoint of the emulator, or an endpoint whose host name has no dot, the
    account name is the value of the account variable and nothing is called;
  \<^item> with an endpoint whose host name has a dot and a first label that is not empty, the
    account name is that label and nothing is called;
  \<^item> with an endpoint whose host name starts with a dot, the config file of the Azure CLI
    is loaded, nothing else is called, and the account name is the account of its storage
    section.
\<close>

theorem AzureBlobConfig_env_credentials:
  assumes "os_Getenv w ''AZURE_STORAGE_ACCOUNT'' = account" and "account \<noteq> ''''"
      and "os_Getenv w ''AZURE_STORAGE_KEY'' = key" and "key \<noteq> ''''"
      and "AzureBlobConfig w endpoint0 wasb = (log, Returns (config, None))"
      and "endpoint = fst (AzureBlobConfig_wasb w endpoint0 wasb)"
      and "dir = (if os_Getenv w ''AZURE_CONFIG_DIR'' = '''' then homedir_Expand w ''~/.azure''
                  else os_Getenv w ''AZURE_CONFIG_DIR'')"
  shows "AccountKey config = key \<and> Call_client_ListKeys \<notin> set log
       \<and> (endpoint = '''' \<longrightarrow>
            AccountName config = account
            \<and> log = fst (azureAccountsClient w account) @ [Call_client_List]
            \<and> Call_NewAccountsClient \<in> set log)
       \<and> (endpoint = emulator_endpoint \<longrightarrow> AccountName config = account \<and> log = [])
       \<and> (endpoint \<noteq> '''' \<and> endpoint \<noteq> emulator_endpoint \<longrightarrow>
            (\<exists>u. url_Parse w endpoint = Inr u
               \<and> (CHR ''.'' \<notin> set (Hostname u) \<longrightarrow> AccountName config = account \<and> log = [])
               \<and> (CHR ''.'' \<in> set (Hostname u) \<and> first_label (Hostname u) \<noteq> '''' \<longrightarrow>
                    AccountName config = first_label (Hostname u) \<and> log = [])
               \<and> (CHR ''.'' \<in> set (Hostname u) \<and> first_label (Hostname u) = '''' \<longrightarrow>
                    log = [Call_ini_Load]
                    \<and> (\<exists>ini sect. ini_Load w (dir @ ''/config'') = Inr ini
                          \<and> ini ''storage'' = Some sect
                          \<and> sect ''account'' = Some (AccountName config)))))
       \<and> (endpoint \<noteq> '''' \<longrightarrow> set log \<subseteq> {Call_ini_Load})"
proof -
  let ?configDir0 = "os_Getenv w ''AZURE_CONFIG_DIR''"
  obtain config0 where W: "AzureBlobConfig_wasb w endpoint0 wasb = (endpoint, config0)"
    using assms(6) by (cases "AzureBlobConfig_wasb w endpoint0 wasb") auto
  note A = assms(5)
  show ?thesis
  proof (cases "AzureBlobConfig_account w endpoint account")
    case (Inl e)
    with A W assms(1) show ?thesis
      by (auto simp: AzureBlobConfig_def Let_def io_return_def)
  next
    case (Inr name)
    obtain l1 account' key' configDir
      where i: "AzureBlobConfig_ini w name key ?configDir0 = (l1, account', key', configDir)"
      by (cases "AzureBlobConfig_ini w name key ?configDir0") auto
    have k: "key' = key"
      using AzureBlobConfig_ini_key [OF assms(4), of w name ?configDir0] i by simp
    have ne: "account' \<noteq> ''''"
      using A W Inr i assms(1,3) by (auto simp: AzureBlobConfig_def Let_def io_return_def)
    define l2 where
      "l2 = fst (AzureBlobConfig_discover w config0 endpoint account' key configDir)"
    have "AzureBlobConfig w endpoint0 wasb =
            (l1 @ l2, snd (AzureBlobConfig_discover w config0 endpoint account' key configDir))"
      using W Inr i ne k assms(1,3) by (simp add: AzureBlobConfig_def Let_def l2_def)
    with A have d: "AzureBlobConfig_discover w config0 endpoint account' key configDir
                          = (l2, Returns (config, None))" and l: "log = l1 @ l2"
      by (simp_all add: l2_def prod_eq_iff)
    have known: "l1 = [] \<and> account' = name" if "name \<noteq> ''''"
      using AzureBlobConfig_ini_known [OF that assms(4), of w ?configDir0] i by simp
    show ?thesis
    proof (cases "endpoint = ''''")
      case True
      then have n: "name = account"
        using Inr by (simp add: AzureBlobConfig_account_def)
      with known assms(2) have l1: "l1 = []" and a: "account' = account" by simp_all
      obtain lc client e1 where c: "azureAccountsClient w account = (lc, client, e1)"
        by (cases "azureAccountsClient w account") auto
      have e1: "e1 = None"
        using d c assms(4) unfolding True a
        by (cases e1) (simp_all add: AzureBlobConfig_discover_def)
      have l2: "l2 = lc @ [Call_client_List]"
        using d c e1 assms(4) log_azureFindAccount [of w client account] unfolding True a
        by (cases "azureFindAccount w client account")
           (auto simp: AzureBlobConfig_discover_def prod_eq_iff fst_io_bind
                 split: go.splits if_splits)
      from discover_known_key_no_endpoint [OF assms(4) d [unfolded True]]
      show ?thesis
        using True l l1 l2 a c by (auto simp: emulator_endpoint_def)
    next
      case False
      from discover_known_key_endpoint [OF assms(4) False, of w config0 account' configDir] d
      have r: "l2 = []" "config = fst (AzureBlobConfig_finish config0 endpoint account' key None)"
        by (auto simp: prod_eq_iff)
      show ?thesis
      proof (cases "endpoint = emulator_endpoint")
        case True
        then have n: "name = account"
          using Inr by (simp add: AzureBlobConfig_account_def)
        with known assms(2) have "l1 = []" "account' = account" by simp_all
        with r l True False show ?thesis by simp
      next
        case E: False
        from AzureBlobConfig_account_label [OF Inr False E]
        obtain u where u: "url_Parse w endpoint = Inr u"
          and n: "name = (if CHR ''.'' \<in> set (Hostname u) then first_label (Hostname u)
                          else account)"
          by blast
        have 1: "AccountName config = account \<and> log = []"
          if "CHR ''.'' \<notin> set (Hostname u)"
          using that n known assms(2) r l by simp
        have 2: "AccountName config = first_label (Hostname u) \<and> log = []"
          if "CHR ''.'' \<in> set (Hostname u) \<and> first_label (Hostname u) \<noteq> ''''"
          using that n known r l by simp
        have 3: "log = [Call_ini_Load]
                 \<and> (\<exists>ini sect. ini_Load w (dir @ ''/config'') = Inr ini
                       \<and> ini ''storage'' = Some sect
                       \<and> sect ''account'' = Some (AccountName config))"
          if "CHR ''.'' \<in> set (Hostname u) \<and> first_label (Hostname u) = ''''"
        proof -
          from that n have "name = ''''" by simp
          with i have "AzureBlobConfig_ini w '''' key ?configDir0 = (l1, account', key', configDir)"
            by simp
          from AzureBlobConfig_ini_no_account [OF assms(4) this ne assms(7)] r l
          show ?thesis by simp
        qed
        have 4: "set log \<subseteq> {Call_ini_Load}"
          using AzureBlobConfig_ini_log [of w name key ?configDir0] i l r by simp
        have 0: "AccountKey config = key \<and> Call_client_ListKeys \<notin> set log"
          using 4 r by auto
        from 0 1 2 3 4 u False E show ?thesis by blast
      qed
    qed
  qed
qed

text \<open>Evaluation with the endpoint of the emulator, a host name without a dot, and a host name that starts with a dot.\<close>

lemma world_env_dir:
  "''/home/user/.azure'' =
     (if os_Getenv world_env ''AZURE_CONFIG_DIR'' = '''' then homedir_Expand world_env ''~/.azure''
      else os_Getenv world_env ''AZURE_CONFIG_DIR'')"
  by (simp add: world_env_def world_accounts_def world0_def)

lemma world_env_ini_fields:
  "os_Getenv world_env_ini ''AZURE_STORAGE_ACCOUNT'' = ''acct''"
  "os_Getenv world_env_ini ''AZURE_STORAGE_KEY'' = ''bXlrZXk=''"
  "os_Getenv world_env_ini ''AZURE_CONFIG_DIR'' = ''''"
  "url_Parse world_env_ini = sample_url_Parse"
  "homedir_Expand world_env_ini p = ''/home/user/.azure''"
  "ini_Load world_env_ini ''/home/user/.azure/config'' = Inr sample_ini"
  by (simp_all add: world_env_ini_def world_env_def world_accounts_def world0_def)

lemma world_env_ini_dir:
  "''/home/user/.azure'' =
     (if os_Getenv world_env_ini ''AZURE_CONFIG_DIR'' = ''''
      then homedir_Expand world_env_ini ''~/.azure''
      else os_Getenv world_env_ini ''AZURE_CONFIG_DIR'')"
  by (simp add: world_env_ini_fields)

lemma blob_env_emulator:
  "AzureBlobConfig world_env ''http://127.0.0.1:8080/devstoreaccount1/'' '''' =
     ([],
      Returns (\<lparr>Endpoint = ''http://127.0.0.1:8080/devstoreaccount1/'', AccountName = ''acct'',
                AccountKey = ''bXlrZXk='', SasToken = None, TokenRenewBuffer = 900000000000,
                Container = '''', Prefix = ''''\<rparr>, None))"
  by (simp add: blob_steps world_env_fields io_return_def)

lemma blob_env_localhost:
  "AzureBlobConfig world_env ''http://localhost:10000'' '''' =
     ([],
      Returns (\<lparr>Endpoint = ''http://localhost:10000'', AccountName = ''acct'',
                AccountKey = ''bXlrZXk='', SasToken = None, TokenRenewBuffer = 900000000000,
                Container = '''', Prefix = ''''\<rparr>, None))"
  by (simp add: blob_steps world_env_fields io_return_def)

lemma blob_env_ini:
  "AzureBlobConfig world_env_ini ''https://.blob.core.windows.net'' '''' =
     ([Call_ini_Load],
      Returns (\<lparr>Endpoint = ''https://.blob.core.windows.net'', AccountName = ''inia'',
                AccountKey = ''bXlrZXk='', SasToken = None, TokenRenewBuffer = 900000000000,
                Container = '''', Prefix = ''''\<rparr>, None))"
  by (simp add: blob_steps world_env_ini_fields sample_ini_def io_return_def)

text \<open>
  One run for each case, all with the account \<^verbatim>\<open>acct\<close> and a key in the environment:
  the endpoint of another account, no endpoint, the endpoint of the emulator, a host name
  without a dot, and a host name that starts with a dot beside a config file that names
  the account \<^verbatim>\<open>inia\<close>.
\<close>

theorem AzureBlobConfig_env_credentials_witness:
  "os_Getenv world_env ''AZURE_STORAGE_ACCOUNT'' = ''acct'' \<and> ''acct'' \<noteq> ''''
   \<and> os_Getenv world_env ''AZURE_STORAGE_KEY'' = ''bXlrZXk='' \<and> ''bXlrZXk='' \<noteq> ''''
   \<and> fst (AzureBlobConfig_wasb world_env ''https://other.blob.core.windows.net'' '''')
       = ''https://other.blob.core.windows.net''
   \<and> url_Parse world_env ''https://other.blob.core.windows.net''
       = Inr \<lparr>Host = ''other.blob.core.windows.net'', Hostname = ''other.blob.core.windows.net'',
              Path = ''''\<rparr>
   \<and> first_label ''other.blob.core.windows.net'' = ''other''
   \<and> AzureBlobConfig world_env ''https://other.blob.core.windows.net'' '''' =
       ([],
        Returns (\<lparr>Endpoint = ''https://other.blob.core.windows.net'', AccountName = ''other'',
                  AccountKey = ''bXlrZXk='', SasToken = None, TokenRenewBuffer = 900000000000,
                  Container = '''', Prefix = ''''\<rparr>, None))
   \<and> fst (AzureBlobConfig_wasb world_env '''' '''') = ''''
   \<and> AccountName (fst (case snd (AzureBlobConfig world_env '''' '''') of Returns r \<Rightarrow> r)) = ''acct''
   \<and> AccountKey (fst (case snd (AzureBlobConfig world_env '''' '''') of Returns r \<Rightarrow> r))
       = ''bXlrZXk=''
   \<and> fst (AzureBlobConfig world_env '''' '''')
       = fst (azureAccountsClient world_env ''acct'') @ [Call_client_List]
   \<and> Call_NewAccountsClient \<in> set (fst (AzureBlobConfig world_env '''' ''''))
   \<and> Call_client_ListKeys \<notin> set (fst (AzureBlobConfig world_env '''' ''''))
   \<and> fst (AzureBlobConfig_wasb world_env emulator_endpoint '''') = emulator_endpoint
   \<and> AzureBlobConfig world_env emulator_endpoint '''' =
       ([],
        Returns (\<lparr>Endpoint = ''http://127.0.0.1:8080/devstoreaccount1/'', AccountName = ''acct'',
                  AccountKey = ''bXlrZXk='', SasToken = None, TokenRenewBuffer = 900000000000,
                  Container = '''', Prefix = ''''\<rparr>, None))
   \<and> url_Parse world_env ''http://localhost:10000''
       = Inr \<lparr>Host = ''localhost:10000'', Hostname = ''localhost'', Path = ''''\<rparr>
   \<and> CHR ''.'' \<notin> set ''localhost''
   \<and> AzureBlobConfig world_env ''http://localhost:10000'' '''' =
       ([],
        Returns (\<lparr>Endpoint = ''http://localhost:10000'', AccountName = ''acct'',
                  AccountKey = ''bXlrZXk='', SasToken = None, TokenRenewBuffer = 900000000000,
                  Container = '''', Prefix = ''''\<rparr>, None))
   \<and> os_Getenv world_env_ini ''AZURE_STORAGE_ACCOUNT'' = ''acct''
   \<and> os_Getenv world_env_ini ''AZURE_STORAGE_KEY'' = ''bXlrZXk=''
   \<and> url_Parse world_env_ini ''https://.blob.core.windows.net''
       = Inr \<lparr>Host = ''.blob.core.windows.net'', Hostname = ''.blob.core.windows.net'',
              Path = ''''\<rparr>
   \<and> first_label ''.blob.core.windows.net'' = ''''
   \<and> ini_Load world_env_ini (''/home/user/.azure'' @ ''/config'') = Inr sample_ini
   \<and> (case sample_ini ''storage'' of Some sect \<Rightarrow> sect ''account'') = Some ''inia''
   \<and> AzureBlobConfig world_env_ini ''https://.blob.core.windows.net'' '''' =
       ([Call_ini_Load],
        Returns (\<lparr>Endpoint = ''https://.blob.core.windows.net'', AccountName = ''inia'',
                  AccountKey = ''bXlrZXk='', SasToken = None, TokenRenewBuffer = 900000000000,
                  Container = '''', Prefix = ''''\<rparr>, None))"
proof -
  have n: "''acct'' \<noteq> ''''" "''bXlrZXk='' \<noteq> ''''"
    by simp_all
  have w1: "''https://other.blob.core.windows.net''
              = fst (AzureBlobConfig_wasb world_env ''https://other.blob.core.windows.net'' '''')"
    by (simp add: AzureBlobConfig_wasb_def)
  have w2: "'''' = fst (AzureBlobConfig_wasb world_env '''' '''')"
    by (simp add: AzureBlobConfig_wasb_def)
  have w3: "emulator_endpoint = fst (AzureBlobConfig_wasb world_env emulator_endpoint '''')"
    by (simp add: AzureBlobConfig_wasb_def)
  have w4: "''http://localhost:10000''
              = fst (AzureBlobConfig_wasb world_env ''http://localhost:10000'' '''')"
    by (simp add: AzureBlobConfig_wasb_def)
  have w5: "''https://.blob.core.windows.net''
              = fst (AzureBlobConfig_wasb world_env_ini ''https://.blob.core.windows.net'' '''')"
    by (simp add: AzureBlobConfig_wasb_def)
  have u1: "url_Parse world_env ''https://other.blob.core.windows.net''
       = Inr \<lparr>Host = ''other.blob.core.windows.net'', Hostname = ''other.blob.core.windows.net'',
              Path = ''''\<rparr>"
    by (simp add: world_env_fields sample_url_Parse_def Let_def)
  have u4: "url_Parse world_env ''http://localhost:10000''
       = Inr \<lparr>Host = ''localhost:10000'', Hostname = ''localhost'', Path = ''''\<rparr>"
    by (simp add: world_env_fields sample_url_Parse_def Let_def)
  have u5: "url_Parse world_env_ini ''https://.blob.core.windows.net''
       = Inr \<lparr>Host = ''.blob.core.windows.net'', Hostname = ''.blob.core.windows.net'',
              Path = ''''\<rparr>"
    by (simp add: world_env_ini_fields sample_url_Parse_def Let_def)
  have b3: "AzureBlobConfig world_env emulator_endpoint '''' =
       ([],
        Returns (\<lparr>Endpoint = ''http://127.0.0.1:8080/devstoreaccount1/'', AccountName = ''acct'',
                  AccountKey = ''bXlrZXk='', SasToken = None, TokenRenewBuffer = 900000000000,
                  Container = '''', Prefix = ''''\<rparr>, None))"
    using blob_env_emulator by (simp add: emulator_endpoint_def)
  note T1 = AzureBlobConfig_env_credentials
              [OF world_env_fields(1) n(1) world_env_fields(2) n(2) blob_env_other_endpoint w1
                  world_env_dir]
  note T2 = AzureBlobConfig_env_credentials
              [OF world_env_fields(1) n(1) world_env_fields(2) n(2) blob_env_no_endpoint w2
                  world_env_dir]
  note T3 = AzureBlobConfig_env_credentials
              [OF world_env_fields(1) n(1) world_env_fields(2) n(2) b3 w3 world_env_dir]
  note T4 = AzureBlobConfig_env_credentials
              [OF world_env_fields(1) n(1) world_env_fields(2) n(2) blob_env_localhost w4
                  world_env_dir]
  note T5 = AzureBlobConfig_env_credentials
              [OF world_env_ini_fields(1) n(1) world_env_ini_fields(2) n(2) blob_env_ini w5
                  world_env_ini_dir]
  have r1: "AccountName \<lparr>Endpoint = ''https://other.blob.core.windows.net'', AccountName = ''other'',
                  AccountKey = ''bXlrZXk='', SasToken = None, TokenRenewBuffer = 900000000000,
                  Container = '''', Prefix = ''''\<rparr> = first_label ''other.blob.core.windows.net''"
    using T1 u1 by (simp add: emulator_endpoint_def first_label_def)
  have r2: "fst (AzureBlobConfig world_env '''' '''')
              = fst (azureAccountsClient world_env ''acct'') @ [Call_client_List]
            \<and> Call_NewAccountsClient \<in> set (fst (AzureBlobConfig world_env '''' ''''))
            \<and> Call_client_ListKeys \<notin> set (fst (AzureBlobConfig world_env '''' ''''))"
    using T2 by (simp add: blob_env_no_endpoint)
  have r3: "AccountKey \<lparr>Endpoint = ''http://127.0.0.1:8080/devstoreaccount1/'',
                  AccountName = ''acct'',
                  AccountKey = ''bXlrZXk='', SasToken = None, TokenRenewBuffer = 900000000000,
                  Container = '''', Prefix = ''''\<rparr> = ''bXlrZXk=''"
    using T3 by simp
  have r4: "AccountName \<lparr>Endpoint = ''http://localhost:10000'', AccountName = ''acct'',
                  AccountKey = ''bXlrZXk='', SasToken = None, TokenRenewBuffer = 900000000000,
                  Container = '''', Prefix = ''''\<rparr> = ''acct''"
    using T4 u4 by (simp add: emulator_endpoint_def)
  have r5: "\<exists>ini sect. ini_Load world_env_ini (''/home/user/.azure'' @ ''/config'') = Inr ini
              \<and> ini ''storage'' = Some sect \<and> sect ''account'' = Some ''inia''"
    using T5 u5 by (simp add: emulator_endpoint_def first_label_def)
  have i: "ini_Load world_env_ini (''/home/user/.azure'' @ ''/config'') = Inr sample_ini"
    by (simp add: world_env_ini_fields)
  have s: "(case sample_ini ''storage'' of Some sect \<Rightarrow> sect ''account'') = Some ''inia''"
    using r5 unfolding i by auto
  show ?thesis
    using r1 r2 r3 r4 s i u1 u4 u5 w1 [symmetric] w2 [symmetric] w3 [symmetric] b3
    by (simp add: world_env_fields world_env_ini_fields blob_env_other_endpoint
          blob_env_no_endpoint blob_env_localhost blob_env_ini first_label_def)
qed

subsection \<open>The endpoint inside the wasb url\<close>

text \<open>
  Claim C7, as stated, fails in its last part: the endpoint is the text https:// followed
  by all that comes after the at sign, the path included, not by the host alone.
\<close>

theorem AzureBlobConfig_wasb_endpoint_counterexample:
  "url_Parse world_env ''https://acct.blob.core.windows.net/dir/sub/'' =
     Inr \<lparr>Host = ''acct.blob.core.windows.net'', Hostname = ''acct.blob.core.windows.net'',
          Path = ''/dir/sub/''\<rparr>
   \<and> fst (AzureBlobConfig_wasb world_env '''' ''cont@acct.blob.core.windows.net/dir/sub/'')
       = ''https://acct.blob.core.windows.net/dir/sub/''
   \<and> AzureBlobConfig world_env '''' ''cont@acct.blob.core.windows.net/dir/sub/'' =
       ([],
        Returns (\<lparr>Endpoint = ''https://acct.blob.core.windows.net/dir/sub/'',
                  AccountName = ''acct'', AccountKey = ''bXlrZXk='', SasToken = None,
                  TokenRenewBuffer = 900000000000, Container = ''cont'',
                  Prefix = ''dir/sub''\<rparr>, None))
   \<and> ''https://acct.blob.core.windows.net/dir/sub/''
       \<noteq> ''https://'' @ ''acct.blob.core.windows.net''"
  by (simp add: blob_env_wasb world_env_fields AzureBlobConfig_wasb_def sample_url_Parse_def
        Let_def)

text \<open>
  Claim C7, amended. When the wasb hint is a container, an at sign and a rest, and
  https:// followed by the rest parses as a url, then the container of the config is the
  text before the first at sign, its prefix is the path of the url without the slashes
  around it, and the endpoint is https:// followed by the whole rest (host and path),
  whatever endpoint was given. Every result of AzureBlobConfig carries that container and
  prefix, and a result without error and without a listing of the accounts carries that
  endpoint.
\<close>

theorem AzureBlobConfig_wasb_hint:
  assumes "wasb = container @ CHR ''@'' # rest"
      and "CHR ''@'' \<notin> set container"
      and "url_Parse w (''https://'' @ rest) = Inr u"
  shows "AzureBlobConfig_wasb w endpoint0 wasb =
           (''https://'' @ rest,
            zero_AZBlobConfig\<lparr>Container := container, Prefix := Trim (Path u) ''/''\<rparr>)
       \<and> (\<forall>log config err. AzureBlobConfig w endpoint0 wasb = (log, Returns (config, err))
             \<longrightarrow> Container config = container \<and> Prefix config = Trim (Path u) ''/'')
       \<and> (\<forall>log config. AzureBlobConfig w endpoint0 wasb = (log, Returns (config, None))
               \<and> Call_client_List \<notin> set log
             \<longrightarrow> Endpoint config = ''https://'' @ rest)"
proof -
  let ?config0 = "zero_AZBlobConfig\<lparr>Container := container, Prefix := Trim (Path u) ''/''\<rparr>"
  let ?endpoint = "''https://'' @ rest"
  have I: "Index (container @ CHR ''@'' # rest) CHR ''@'' = int (length container)"
    using assms(2) by (rule Index_split)
  have W: "AzureBlobConfig_wasb w endpoint0 wasb = (?endpoint, ?config0)"
    unfolding AzureBlobConfig_wasb_def assms(1) I Let_def
    using assms(3) by (simp add: nat_add_distrib)
  have R: "Container config = container \<and> Prefix config = Trim (Path u) ''/''
           \<and> (err = None \<and> Call_client_List \<notin> set log \<longrightarrow> Endpoint config = ?endpoint)"
    if A: "AzureBlobConfig w endpoint0 wasb = (log, Returns (config, err))" for log config err
  proof (cases "AzureBlobConfig_account w ?endpoint (os_Getenv w ''AZURE_STORAGE_ACCOUNT'')")
    case (Inl e)
    with A W show ?thesis
      by (auto simp: AzureBlobConfig_def Let_def io_return_def)
  next
    case (Inr account1)
    obtain l1 account key configDir
      where i: "AzureBlobConfig_ini w account1 (os_Getenv w ''AZURE_STORAGE_KEY'')
                  (os_Getenv w ''AZURE_CONFIG_DIR'') = (l1, account, key, configDir)"
      by (cases "AzureBlobConfig_ini w account1 (os_Getenv w ''AZURE_STORAGE_KEY'')
                  (os_Getenv w ''AZURE_CONFIG_DIR'')") auto
    show ?thesis
    proof (cases "account = ''''")
      case True
      with A W Inr i show ?thesis
        by (auto simp: AzureBlobConfig_def Let_def io_return_def)
    next
      case False
      define l2 where
        "l2 = fst (AzureBlobConfig_discover w ?config0 ?endpoint account key configDir)"
      have "AzureBlobConfig w endpoint0 wasb =
              (l1 @ l2, snd (AzureBlobConfig_discover w ?config0 ?endpoint account key configDir))"
        using W Inr i False by (simp add: AzureBlobConfig_def Let_def l2_def)
      with A have d: "AzureBlobConfig_discover w ?config0 ?endpoint account key configDir
                            = (l2, Returns (config, err))" and l: "log = l1 @ l2"
        by (simp_all add: l2_def prod_eq_iff)
      from AzureBlobConfig_discover_result [OF d] l show ?thesis by auto
    qed
  qed
  from W R show ?thesis by blast
qed

text \<open>
  The hint of the counterexample, with an explicit endpoint that the hint overrides.
\<close>

theorem AzureBlobConfig_wasb_hint_witness:
  "''cont@acct.blob.core.windows.net/dir/sub/''
     = ''cont'' @ CHR ''@'' # ''acct.blob.core.windows.net/dir/sub/''
   \<and> CHR ''@'' \<notin> set ''cont''
   \<and> url_Parse world_env (''https://'' @ ''acct.blob.core.windows.net/dir/sub/'') =
       Inr \<lparr>Host = ''acct.blob.core.windows.net'', Hostname = ''acct.blob.core.windows.net'',
            Path = ''/dir/sub/''\<rparr>
   \<and> AzureBlobConfig_wasb world_env ''https://ignored.example''
         ''cont@acct.blob.core.windows.net/dir/sub/''
       = (''https://acct.blob.core.windows.net/dir/sub/'',
          zero_AZBlobConfig\<lparr>Container := ''cont'', Prefix := ''dir/sub''\<rparr>)"
proof -
  have s: "''cont@acct.blob.core.windows.net/dir/sub/''
     = ''cont'' @ CHR ''@'' # ''acct.blob.core.windows.net/dir/sub/''"
    by simp
  have c: "CHR ''@'' \<notin> set ''cont''"
    by simp
  have u: "url_Parse world_env (''https://'' @ ''acct.blob.core.windows.net/dir/sub/'') =
       Inr \<lparr>Host = ''acct.blob.core.windows.net'', Hostname = ''acct.blob.core.windows.net'',
            Path = ''/dir/sub/''\<rparr>"
    by (simp add: world_env_fields sample_url_Parse_def Let_def)
  have t: "Trim ''/dir/sub/'' ''/'' = ''dir/sub''"
    by (simp add: Trim_def)
  have "AzureBlobConfig_wasb world_env ''https://ignored.example''
         ''cont@acct.blob.core.windows.net/dir/sub/''
       = (''https://acct.blob.core.windows.net/dir/sub/'',
          zero_AZBlobConfig\<lparr>Container := ''cont'', Prefix := ''dir/sub''\<rparr>)"
    using AzureBlobConfig_wasb_hint [OF s c u, of "''https://ignored.example''", THEN conjunct1]
    by (simp add: t)
  with s c u show ?thesis
    by blast
qed

subsection \<open>The error that is left in the named result\<close>

text \<open>
  Claim C9 does not hold of the code. When the key is known, the endpoint is empty, the
  accounts client is built and the lookup of the account fails, AzureBlobConfig does go
  on: it computes the endpoint of the public cloud from the account name and fills in
  every field of the config. But the error of the lookup stays in the named result
  \<^verbatim>\<open>err\<close>, and the last \<^verbatim>\<open>return\<close> hands it to the caller together with the config.
\<close>

theorem AzureBlobConfig_stale_error:
  assumes "AzureBlobConfig_wasb w endpoint0 wasb = ('''', config0)"
      and "os_Getenv w ''AZURE_STORAGE_ACCOUNT'' = account" and "account \<noteq> ''''"
      and "os_Getenv w ''AZURE_STORAGE_KEY'' = key" and "key \<noteq> ''''"
      and "azureAccountsClient w account = (log, client, None)"
      and "snd (azureFindAccount w client account) = Returns (endpoint, resourceGroup, Some e)"
  shows "AzureBlobConfig w endpoint0 wasb =
           (log @ [Call_client_List],
            Returns (config0\<lparr>TokenRenewBuffer := 15 * Minute,
                             Endpoint := ''https://'' @ account @ ''.blob.core.windows.net'',
                             AccountName := account, AccountKey := key\<rparr>,
                     Some e))"
proof -
  have a: "AzureBlobConfig_account w '''' account = Inr account"
    by (simp add: AzureBlobConfig_account_def)
  have i: "AzureBlobConfig_ini w account key (os_Getenv w ''AZURE_CONFIG_DIR'') =
             ([], account, key, os_Getenv w ''AZURE_CONFIG_DIR'')"
    using assms(3,5) by (simp add: AzureBlobConfig_ini_def io_return_def)
  have f: "azureFindAccount w client account =
             ([Call_client_List], Returns ('''', '''', Some e))"
    using assms(7) azureFindAccount_error [OF assms(7)] log_azureFindAccount [of w client account]
    by (simp add: prod_eq_iff)
  show ?thesis
    using assms(3,5)
    by (simp add: AzureBlobConfig_def Let_def assms(1,2,4,6) a i f AzureBlobConfig_discover_def
          AzureBlobConfig_finish_def Init_def StorageEndpointSuffix_def)
qed

text \<open>
  The account and the key are in the environment, no endpoint is given, and the listing
  does not hold the account: the config is complete and the error is "Azure account not
  found".
\<close>

theorem AzureBlobConfig_stale_error_witness:
  "AzureBlobConfig_wasb world_unlisted '''' '''' = ('''', zero_AZBlobConfig)
   \<and> os_Getenv world_unlisted ''AZURE_STORAGE_ACCOUNT'' = ''acct''
   \<and> os_Getenv world_unlisted ''AZURE_STORAGE_KEY'' = ''bXlrZXk=''
   \<and> snd (snd (azureAccountsClient world_unlisted ''acct'')) = None
   \<and> snd (azureFindAccount world_unlisted client_msi ''acct'')
       = Returns ('''', '''', Some (AccountNotFound ''acct''))
   \<and> snd (AzureBlobConfig world_unlisted '''' '''') =
       Returns (\<lparr>Endpoint = ''https://acct.blob.core.windows.net'', AccountName = ''acct'',
                 AccountKey = ''bXlrZXk='', SasToken = None, TokenRenewBuffer = 900000000000,
                 Container = '''', Prefix = ''''\<rparr>,
                Some (AccountNotFound ''acct''))"
proof -
  have w: "AzureBlobConfig_wasb world_unlisted '''' '''' = ('''', zero_AZBlobConfig)"
    by (simp add: AzureBlobConfig_wasb_def)
  have f: "snd (azureFindAccount world_unlisted client_msi ''acct'')
             = Returns ('''', '''', Some (AccountNotFound ''acct''))"
    by (simp add: azureFindAccount_def world_unlisted_fields account_short_def)
  have n: "''acct'' \<noteq> ''''" "''bXlrZXk='' \<noteq> ''''"
    by simp_all
  note T = AzureBlobConfig_stale_error
             [OF w world_unlisted_fields(1) n(1) world_unlisted_fields(2) n(2)
                 client_sample(3) f]
  show ?thesis
    using T w f
    by (simp add: world_unlisted_fields client_sample zero_AZBlobConfig_def Minute_def)
qed

text \<open>
  Claim C10 does not hold of the code either, by the same defect. An error can come with
  a config whose container and prefix are set and whose other fields are not, as the
  claim says (second run below: no account anywhere). But the error left in the named
  result comes with a config whose endpoint, account name, account key and renewal buffer
  are all set (first run below: the listing of the accounts is refused).
\<close>

theorem AzureBlobConfig_error_with_config:
  "AzureBlobConfig world_list_fails '''' ''backups'' =
     ([Call_cli_ProfilePath, Call_cli_LoadProfile, Call_NewAccountsClient,
       Call_auth_GetSettingsFromEnvironment, Call_GetClientCredentials,
       Call_auth_GetSettingsFromFile, Call_cli_AccessTokensPath, Call_cli_LoadTokens,
       Call_adal_GetMSIVMEndpoint, Call_adal_NewServicePrincipalTokenFromMSI, Call_EnsureFresh,
       Call_client_List],
      Returns (\<lparr>Endpoint = ''https://acct.blob.core.windows.net'', AccountName = ''acct'',
                AccountKey = ''bXlrZXk='', SasToken = None, TokenRenewBuffer = 900000000000,
                Container = '''', Prefix = ''''\<rparr>, Some (External ''403 Forbidden'')))
   \<and> AzureBlobConfig world0 '''' ''cont@/dir/sub/'' =
     ([Call_ini_Load],
      Returns (\<lparr>Endpoint = '''', AccountName = '''', AccountKey = '''', SasToken = None,
                TokenRenewBuffer = 0, Container = ''cont'', Prefix = ''dir/sub''\<rparr>,
               Some (MissingAccount ''/home/user/.azure'')))"
proof -
  have "AzureBlobConfig world0 '''' ''cont@/dir/sub/'' =
     ([Call_ini_Load],
      Returns (\<lparr>Endpoint = '''', AccountName = '''', AccountKey = '''', SasToken = None,
                TokenRenewBuffer = 0, Container = ''cont'', Prefix = ''dir/sub''\<rparr>,
               Some (MissingAccount ''/home/user/.azure'')))"
    by (simp add: blob_steps world0_def io_return_def)
  then show ?thesis
    by (simp add: blob_list_fails log_client_def)
qed

end
